theory Spec2Isabelle
  imports Complex_Main
begin

section \<open>Python errors as values\<close>

text \<open>
  The notebooks define no exception class of their own. The exceptions that can reach a
  cell or a callback are the ones raised by the Python runtime and by numpy
  (\<open>TypeError\<close>, \<open>ValueError\<close>, \<open>IndexError\<close>, \<open>KeyError\<close>) and the ones raised
  inside a called library (\<open>LibraryError\<close>, carrying the library's message).
\<close>

datatype error = TypeError | ValueError | IndexError | KeyError | LibraryError string

definition bind_res :: "error + 'a \<Rightarrow> ('a \<Rightarrow> error + 'b) \<Rightarrow> error + 'b" where
  "bind_res m f = (case m of Inl e \<Rightarrow> Inl e | Inr v \<Rightarrow> f v)"

section \<open>The model-fitting notebook (NLLS.ipynb)\<close>

subsection \<open>Making a fake emission line\<close>

text \<open>
  Floating-point numbers are modelled as reals: rounding is not part of the model.
  \<^verbatim>\<open>
  cont_zp = 500.0   # value at 0
  cont_slope = 5.0  # change in continuum per channel
  amplitude = 30.0 # peak of the line
  width = 0.5       # Width of the line
  center = 5.0      # location of the line
  \<close>
\<close>

definition cont_zp :: real where "cont_zp = 500"
definition cont_slope :: real where "cont_slope = 5"
definition amplitude :: real where "amplitude = 30"
definition width :: real where "width = 1 / 2"
definition center :: real where "center = 5"

text \<open>
  \<open>np.linspace(start, stop, num)\<close> with the default \<open>endpoint=True\<close>: \<open>num\<close> evenly
  spaced samples, the step being \<open>(stop - start) / (num - 1)\<close>.
\<close>

definition linspace :: "real \<Rightarrow> real \<Rightarrow> nat \<Rightarrow> real list" where
  "linspace start stop num =
     map (\<lambda>i. start + real i * ((stop - start) / real (num - 1))) [0..<num]"

definition wave :: "real list" where
  "wave = linspace 0 10 100"

text \<open>
  \<^verbatim>\<open>
  flux = amplitude*np.exp(-0.5*np.power(wave-center,2)/width**2)+ \
         cont_zp + + cont_slope*wave
  \<close>
  The arithmetic broadcasts over the array \<open>wave\<close>, one channel at a time; the second
  \<open>+\<close> of \<open>+ +\<close> is a unary plus.
\<close>

definition flux :: "real list" where
  "flux = map (\<lambda>w. amplitude * exp (- 0.5 * (w - center)\<^sup>2 / width\<^sup>2)
                     + cont_zp + cont_slope * w) wave"

subsection \<open>The model function passed to \<open>curve_fit\<close>\<close>

text \<open>
  \<^verbatim>\<open>
  def model(x, cont, slope, amp, center, width):
      model = amp*np.exp(-0.5*np.power(x-center,2)/width**2) + cont + slope*x
      return model
  \<close>
  The parameters \<open>center\<close> and \<open>width\<close> shadow the globals of the same name.
\<close>

definition model :: "real \<Rightarrow> real \<Rightarrow> real \<Rightarrow> real \<Rightarrow> real \<Rightarrow> real \<Rightarrow> real" where
  "model = (\<lambda>x cont slope amp center width.
     amp * exp (- 0.5 * (x - center)\<^sup>2 / width\<^sup>2) + cont + slope * x)"

text \<open>The same function applied to an array of abscissae.\<close>

definition model_vec :: "real list \<Rightarrow> real \<Rightarrow> real \<Rightarrow> real \<Rightarrow> real \<Rightarrow> real \<Rightarrow> real list" where
  "model_vec xs cont slope amp c w = map (\<lambda>x. model x cont slope amp c w) xs"

text \<open>
  \<open>model(wave, *popt)\<close>: the parameter vector is unpacked into the five positional
  parameters; any other number of entries is a \<open>TypeError\<close> of the call.
\<close>

definition model_star :: "real list \<Rightarrow> real list \<Rightarrow> error + real list" where
  "model_star xs popt =
     (case popt of
        [cont, slope, amp, c, w] \<Rightarrow> Inr (model_vec xs cont slope amp c w)
      | _ \<Rightarrow> Inl TypeError)"

subsection \<open>The compound model of \<open>astropy.modeling\<close>\<close>

text \<open>
  \<^verbatim>\<open>
  line = models.Gaussian1D(amplitude=80., mean=4.5, stddev=1.0)
  continuum = models.Linear1D(slope=0.0, intercept=425.)
  model = line + continuum
  \<close>
  \<open>Gaussian1D\<close> and \<open>Linear1D\<close> are library models; their evaluation is the documented
  one of \<open>astropy.modeling.functional_models\<close>, and the sum of two models evaluates both
  at the same abscissa and adds the values.
\<close>

definition Gaussian1D :: "real \<Rightarrow> real \<Rightarrow> real \<Rightarrow> real \<Rightarrow> real" where
  "Gaussian1D = (\<lambda>amplitude mean stddev x.
     amplitude * exp (- 0.5 * (x - mean)\<^sup>2 / stddev\<^sup>2))"

definition Linear1D :: "real \<Rightarrow> real \<Rightarrow> real \<Rightarrow> real" where
  "Linear1D = (\<lambda>slope intercept x. slope * x + intercept)"

definition compound_add :: "(real \<Rightarrow> real) \<Rightarrow> (real \<Rightarrow> real) \<Rightarrow> real \<Rightarrow> real" where
  "compound_add f g x = f x + g x"

subsection \<open>The textbook formula\<close>

text \<open>
  The Gaussian line on a linear continuum as the specification writes it:
  \<open>amp * exp (- (x - center)\<^sup>2 / (2 * width\<^sup>2)) + cont + slope * x\<close>.
\<close>

definition gaussian_plus_continuum ::
  "real \<Rightarrow> real \<Rightarrow> real \<Rightarrow> real \<Rightarrow> real \<Rightarrow> real \<Rightarrow> real" where
  "gaussian_plus_continuum x cont slope amp c w =
     amp * exp (- ((x - c)\<^sup>2) / (2 * w\<^sup>2)) + cont + slope * x"

subsection \<open>Poisson noise\<close>

text \<open>
  \<^verbatim>\<open>
  obs_flux = np.random.poisson(flux)
  \<close>
  The random generator is library code. Its state \<open>'g\<close> is threaded explicitly and one
  scalar draw is a parameter \<open>draw\<close>: from the state and the mean it gives the count and
  the next state. Over an array the generator draws one count per entry, in order, and
  it rejects a negative mean with \<open>ValueError\<close> before drawing.
\<close>

fun poisson_draws :: "('g \<Rightarrow> real \<Rightarrow> nat \<times> 'g) \<Rightarrow> 'g \<Rightarrow> real list \<Rightarrow> nat list \<times> 'g" where
  "poisson_draws draw g [] = ([], g)"
| "poisson_draws draw g (lam # lams) =
     (case draw g lam of
        (k, g') \<Rightarrow> (case poisson_draws draw g' lams of (ks, g'') \<Rightarrow> (k # ks, g'')))"

definition random_poisson ::
  "('g \<Rightarrow> real \<Rightarrow> nat \<times> 'g) \<Rightarrow> 'g \<Rightarrow> real list \<Rightarrow> error + (nat list \<times> 'g)" where
  "random_poisson draw g lam =
     (if list_ex (\<lambda>l. l < 0) lam then Inl ValueError else Inr (poisson_draws draw g lam))"

definition obs_flux :: "('g \<Rightarrow> real \<Rightarrow> nat \<times> 'g) \<Rightarrow> 'g \<Rightarrow> error + (nat list \<times> 'g)" where
  "obs_flux draw g = random_poisson draw g flux"

subsection \<open>The least-squares fit\<close>

text \<open>
  \<^verbatim>\<open>
  popt,pcov = curve_fit(model, wave, obs_flux, p0=(425.,0.0,80.,4.5,1.0),
                        sigma=np.sqrt(obs_flux))
  \<close>
  \<open>curve_fit\<close> is the optimiser of \<open>scipy.optimize\<close>, a parameter \<open>cf\<close> here. It is
  handed the model function (which it calls as \<open>f(xdata, *params)\<close>), the abscissae,
  the observations, the initial guess and the errors, and returns the best-fit vector
  and its covariance matrix, or raises.
\<close>

type_synonym curve_fit_fn =
  "(real list \<Rightarrow> real list \<Rightarrow> error + real list) \<Rightarrow> real list \<Rightarrow> real list \<Rightarrow> real list
    \<Rightarrow> real list \<Rightarrow> error + (real list \<times> real list list)"

definition p0 :: "real list" where
  "p0 = [425, 0, 80, 4.5, 1]"

definition fit :: "curve_fit_fn \<Rightarrow> nat list \<Rightarrow> error + (real list \<times> real list list)" where
  "fit cf obs = cf model_star wave (map real obs) p0 (map (\<lambda>k. sqrt (real k)) obs)"

text \<open>
  What the library documents about the shapes of the result of \<open>curve_fit\<close>: with an
  initial guess of length \<open>N\<close>, the best-fit vector has \<open>N\<close> entries and the covariance
  is an \<open>N \<times> N\<close> array.
\<close>

definition curve_fit_shapes :: "curve_fit_fn \<Rightarrow> bool" where
  "curve_fit_shapes cf =
     (\<forall>f xs ys guess sigma popt pcov.
        cf f xs ys guess sigma = Inr (popt, pcov) \<longrightarrow>
          length popt = length guess \<and> length pcov = length guess
          \<and> list_all (\<lambda>row. length row = length guess) pcov)"

section \<open>The interactive-plotting notebook\<close>

subsection \<open>Arrays, indexing and conversions of the Python runtime\<close>

text \<open>
  A numpy array is its shape and its entries in row-major order. \<open>image.shape\<close> is the
  shape, \<open>ndim\<close> the number of axes.
\<close>

record ndarray =
  shape :: "nat list"
  data :: "real list"

definition ndim :: "ndarray \<Rightarrow> nat" where
  "ndim a = length (shape a)"

definition well_shaped :: "ndarray \<Rightarrow> bool" where
  "well_shaped a = (length (data a) = prod_list (shape a))"

text \<open>
  An index along an axis of length \<open>n\<close>: Python and numpy accept \<open>-n \<le> i < n\<close>, a
  negative index counting from the end, and raise \<open>IndexError\<close> otherwise.
\<close>

definition norm_index :: "nat \<Rightarrow> int \<Rightarrow> error + nat" where
  "norm_index n i =
     (if - int n \<le> i \<and> i < int n then Inr (nat (if i < 0 then i + int n else i))
      else Inl IndexError)"

text \<open>\<open>xs[i]\<close> on a list (\<open>pflist[0]\<close>, \<open>pf[ext]\<close>, \<open>sp[change.new]\<close>).\<close>

definition py_getitem :: "'a list \<Rightarrow> int \<Rightarrow> error + 'a" where
  "py_getitem xs i = bind_res (norm_index (length xs) i) (\<lambda>k. Inr (xs ! k))"

text \<open>\<open>zl,xl = image.shape\<close>: unpacking a tuple that has not exactly two entries raises.\<close>

definition unpack2 :: "nat list \<Rightarrow> error + (nat \<times> nat)" where
  "unpack2 t = (case t of [a, b] \<Rightarrow> Inr (a, b) | _ \<Rightarrow> Inl ValueError)"

text \<open>
  \<open>image[i, :]\<close>: the sub-array at index \<open>i\<close> of the first axis; an array with fewer
  than two axes has too many indices.
\<close>

definition get_row :: "ndarray \<Rightarrow> int \<Rightarrow> error + ndarray" where
  "get_row a i =
     (case shape a of
        zl # xl # rest \<Rightarrow>
          bind_res (norm_index zl i) (\<lambda>k.
            Inr \<lparr>shape = xl # rest,
                 data = take (xl * prod_list rest) (drop (k * (xl * prod_list rest)) (data a))\<rparr>)
      | _ \<Rightarrow> Inl IndexError)"

text \<open>\<open>image[i, j]\<close>: for a 2-D array the entry in row \<open>i\<close> and column \<open>j\<close>.\<close>

definition get_item2 :: "ndarray \<Rightarrow> int \<Rightarrow> int \<Rightarrow> error + ndarray" where
  "get_item2 a i j =
     (case shape a of
        zl # xl # rest \<Rightarrow>
          bind_res (norm_index zl i) (\<lambda>k.
          bind_res (norm_index xl j) (\<lambda>l.
            Inr \<lparr>shape = rest,
                 data = take (prod_list rest) (drop ((k * xl + l) * prod_list rest) (data a))\<rparr>))
      | _ \<Rightarrow> Inl IndexError)"

text \<open>A \<open>%f\<close> conversion needs a number: a 0-dimensional array holding one entry.\<close>

definition as_scalar :: "ndarray \<Rightarrow> error + real" where
  "as_scalar a = (case (shape a, data a) of ([], [v]) \<Rightarrow> Inr v | _ \<Rightarrow> Inl TypeError)"

text \<open>
  \<open>int(v)\<close>: a float is truncated toward zero; \<open>None\<close> is a \<open>TypeError\<close>.
\<close>

definition trunc :: "real \<Rightarrow> int" where
  "trunc r = (if 0 \<le> r then \<lfloor>r\<rfloor> else \<lceil>r\<rceil>)"

definition py_int :: "real option \<Rightarrow> error + int" where
  "py_int v = (case v of None \<Rightarrow> Inl TypeError | Some r \<Rightarrow> Inr (trunc r))"

subsection \<open>Loading the image\<close>

text \<open>
  \<^verbatim>\<open>
  ext = 0
  pflist = SkyView.get_images(position='M82', survey=['SDSSr'], radius=10 * u.arcmin)
  pf = pflist[0]
  image = pf[ext].data
  \<close>
  The remote query is a parameter; it returns a list of HDU lists. An HDU is read
  lazily by the FITS library: reading the attribute \<open>header\<close> or \<open>data\<close> gives the
  header cards or the data, or raises.
\<close>

record 'd hdu =
  hdu_header :: "error + string list"
  hdu_data :: "error + 'd"

definition load_image ::
  "(string \<Rightarrow> string list \<Rightarrow> real \<Rightarrow> error + 'd hdu list list) \<Rightarrow> error + 'd" where
  "load_image get_images =
     bind_res (get_images ''M82'' [''SDSSr''] 10) (\<lambda>pflist.
     bind_res (py_getitem pflist 0) (\<lambda>pf.
     bind_res (py_getitem pf 0) hdu_data))"

text \<open>
  What the sky-survey service delivers for an imaging survey: every HDU of every file
  it returns holds a 2-dimensional pixel array.
\<close>

definition returns_2d_images ::
  "(string \<Rightarrow> string list \<Rightarrow> real \<Rightarrow> error + ndarray hdu list list) \<Rightarrow> bool" where
  "returns_2d_images get_images =
     (\<forall>position survey radius pflist.
        get_images position survey radius = Inr pflist \<longrightarrow>
          list_all (list_all (\<lambda>h. case hdu_data h of Inl e \<Rightarrow> True | Inr a \<Rightarrow> ndim a = 2))
            pflist)"

subsection \<open>Figures\<close>

text \<open>
  A figure with one set of axes: the artists on the axes, and how often a redraw was
  asked of the canvas through \<open>draw_idle()\<close> and through \<open>draw()\<close>. An artist is an
  image or a line with its x data, y data, format string and marker size.
\<close>

datatype artist =
    AxesImage ndarray
  | Line2D "real list" "real list" string "real option"

record figure =
  artists :: "artist list"
  draw_idle_calls :: nat
  draw_calls :: nat

definition canvas_draw_idle :: "figure \<Rightarrow> figure" where
  "canvas_draw_idle f = f\<lparr>draw_idle_calls := Suc (draw_idle_calls f)\<rparr>"

definition canvas_draw :: "figure \<Rightarrow> figure" where
  "canvas_draw f = f\<lparr>draw_calls := Suc (draw_calls f)\<rparr>"

text \<open>
  \<open>Axes.imshow\<close> of the plotting library. A trailing axis of length one is squeezed
  away; the array is then accepted as scalar data when it has two axes, and as colour
  data when it has three axes the last of which has 3 or 4 entries, in which case it
  must not be empty (\<open>ValueError\<close>); any other shape is a \<open>TypeError\<close>.
\<close>

definition squeeze_last :: "ndarray \<Rightarrow> ndarray" where
  "squeeze_last a = (case shape a of [m, n, c] \<Rightarrow> (if c = 1 then a\<lparr>shape := [m, n]\<rparr> else a) | _ \<Rightarrow> a)"

definition Axes_imshow :: "ndarray \<Rightarrow> error + artist" where
  "Axes_imshow a =
     (case shape (squeeze_last a) of
        [m, n] \<Rightarrow> Inr (AxesImage (squeeze_last a))
      | [m, n, c] \<Rightarrow>
          (if c = 3 \<or> c = 4 then
             (if data a = [] then Inl ValueError else Inr (AxesImage a))
           else Inl TypeError)
      | _ \<Rightarrow> Inl TypeError)"

text \<open>
  \<^verbatim>\<open>
  fig = plt.figure(figsize=[6,6])
  plt.ion()
  p = fig.add_subplot(111)
  p.imshow(image, interpolation='Nearest', origin='lower', vmin=-10, vmax=20, cmap='viridis')
  plt.show()
  \<close>
\<close>

definition show_image :: "ndarray \<Rightarrow> error + figure" where
  "show_image img =
     bind_res (Axes_imshow img) (\<lambda>im.
       Inr \<lparr>artists = [im], draw_idle_calls = 0, draw_calls = 0\<rparr>)"

text \<open>
  \<open>Axes.plot(x, y, fmt, markersize=ms)\<close> is a parameter of the callbacks: it gets the
  artists of the axes and returns them with its additions, or raises. \<open>Axes_plot\<close> is
  the library's own behaviour on two scalars: one line artist is appended, and a
  \<open>None\<close> coordinate is rejected with \<open>ValueError\<close>.
\<close>

type_synonym plot_fn =
  "artist list \<Rightarrow> real option \<Rightarrow> real option \<Rightarrow> string \<Rightarrow> real \<Rightarrow> error + artist list"

definition Axes_plot :: plot_fn where
  "Axes_plot arts x y fmt ms =
     (case (x, y) of
        (Some u, Some v) \<Rightarrow> Inr (arts @ [Line2D [u] [v] fmt (Some ms)])
      | _ \<Rightarrow> Inl ValueError)"

subsection \<open>Key-press callbacks\<close>

record key_event =
  key :: string
  xdata :: "real option"
  ydata :: "real option"

text \<open>
  A callback takes the event and the state it mutates, and returns the exception it
  raised, if any, with the state as it is left.
  \<^verbatim>\<open>
  def on_key_press(event):
      xc, yc = event.xdata, event.ydata

      if event.key == 'm':
          p.plot(xc,yc,'ro', markersize=5)
          fig.canvas.draw_idle
  \<close>
  The last statement evaluates the attribute: the bound method is looked up and
  dropped, it is not applied.
\<close>

definition on_key_press :: "plot_fn \<Rightarrow> key_event \<Rightarrow> figure \<Rightarrow> error option \<times> figure" where
  "on_key_press plot event fig =
     (let xc = xdata event; yc = ydata event in
      if key event = ''m'' then
        (case plot (artists fig) xc yc ''ro'' 5 of
           Inl e \<Rightarrow> (Some e, fig)
         | Inr arts \<Rightarrow>
             (let fig' = fig\<lparr>artists := arts\<rparr>; method = canvas_draw_idle in (None, fig')))
      else (None, fig))"

text \<open>
  What appears below a cell or in an output widget: the lines the code prints, and the
  traceback of an exception that the notebook shows.
\<close>

datatype printed =
  PixelLine real real real | CoordLine real real | CountLine nat | Traceback error

text \<open>
  \<^verbatim>\<open>
  out = widgets.Output()
  @out.capture()
  def on_key_press(event):
      xc, yc = event.xdata, event.ydata

      if event.key == 'm':
          p.plot(xc,yc,'ro', markersize=5)
          fig.canvas.draw_idle

          print("[%.1f, %.1f] = %.4f" % (xc, yc, image[int(yc),int(xc)]))
  \<close>
  \<open>image_at\<close> is the subscript \<open>image[int(yc),int(xc)]\<close>, its index expressions
  evaluated left to right; \<open>format_pixel\<close> is the \<open>%\<close> formatting of the three values.
\<close>

definition image_at :: "ndarray \<Rightarrow> real option \<Rightarrow> real option \<Rightarrow> error + ndarray" where
  "image_at img yc xc =
     bind_res (py_int yc) (\<lambda>iy.
     bind_res (py_int xc) (\<lambda>ix.
     get_item2 img iy ix))"

definition format_pixel :: "real option \<Rightarrow> real option \<Rightarrow> ndarray \<Rightarrow> error + printed" where
  "format_pixel xc yc v =
     (case (xc, yc) of
        (Some x, Some y) \<Rightarrow> bind_res (as_scalar v) (\<lambda>r. Inr (PixelLine x y r))
      | _ \<Rightarrow> Inl TypeError)"

definition on_key_press_pixel ::
  "plot_fn \<Rightarrow> ndarray \<Rightarrow> key_event \<Rightarrow> figure \<times> printed list
     \<Rightarrow> error option \<times> (figure \<times> printed list)" where
  "on_key_press_pixel plot img event s =
     (case s of (fig, out) \<Rightarrow>
      let xc = xdata event; yc = ydata event in
      if key event = ''m'' then
        (case plot (artists fig) xc yc ''ro'' 5 of
           Inl e \<Rightarrow> (Some e, (fig, out))
         | Inr arts \<Rightarrow>
             (let fig' = fig\<lparr>artists := arts\<rparr>; method = canvas_draw_idle in
              (case bind_res (image_at img yc xc) (format_pixel xc yc) of
                 Inl e \<Rightarrow> (Some e, (fig', out))
               | Inr line \<Rightarrow> (None, (fig', out @ [line])))))
      else (None, (fig, out)))"

text \<open>
  \<open>on_key_press_pixel\<close> is the function as written. The decorator \<open>out.capture()\<close> of
  the widget library is applied to it, the name \<open>on_key_press\<close> is bound to the
  result, and that is what \<open>mpl_connect\<close> registers. The decorated function runs the
  body inside the output widget: what the body prints goes to the widget, and in a
  notebook an exception that leaves the body is shown in the widget as a traceback and
  is not raised further.
\<close>

definition Output_capture ::
  "('a \<Rightarrow> 'f \<times> printed list \<Rightarrow> error option \<times> ('f \<times> printed list))
     \<Rightarrow> 'a \<Rightarrow> 'f \<times> printed list \<Rightarrow> error option \<times> ('f \<times> printed list)" where
  "Output_capture func event s =
     (case func event s of
        (None, s') \<Rightarrow> (None, s')
      | (Some e, (fig', out')) \<Rightarrow> (None, (fig', out' @ [Traceback e])))"

definition on_key_press_out ::
  "plot_fn \<Rightarrow> ndarray \<Rightarrow> key_event \<Rightarrow> figure \<times> printed list
     \<Rightarrow> error option \<times> (figure \<times> printed list)" where
  "on_key_press_out plot img = Output_capture (on_key_press_pixel plot img)"

text \<open>
  \<^verbatim>\<open>
  class GUI_inter:
      def __init__(self,fig,img):
          self.fig = fig
          self.p = self.fig.gca()
          self.img = img
          self.display()

      def display(self,sigma=20.0):
          plt.clf()
          self.v0 = np.mean(self.img) - sigma * np.std(self.img)
          self.v1 = np.mean(self.img) + sigma * np.std(self.img)
          self.p = self.fig.add_subplot(111)
          self.p.imshow(self.img, interpolation='Nearest', origin='lower',
                        vmin=self.v0, vmax=self.v1, cmap='viridis')
          plt.draw()
  \<close>
  The constructor displays the image on the cleared figure. The colour limits are
  computed from the mean and the standard deviation of the image, which numpy gives
  for every array; the figure record does not hold them. \<open>plt.draw()\<close> asks the
  canvas of the current figure for a redraw through \<open>draw_idle()\<close>.
\<close>

definition GUI_inter_display :: "ndarray \<Rightarrow> error + figure" where
  "GUI_inter_display img =
     bind_res (Axes_imshow img) (\<lambda>im.
       Inr (canvas_draw_idle \<lparr>artists = [im], draw_idle_calls = 0, draw_calls = 0\<rparr>))"

text \<open>
  \<^verbatim>\<open>
  class GUI_inter:
      def on_key_press(self, event):
          xc, yc = event.xdata, event.ydata

          if event.key == 'm':
              self.p.plot(xc,yc,'ro', markersize=5)
              fig.canvas.draw_idle

              print("[%.2f, %.2f]" % (xc,yc))
  \<close>
\<close>

definition format_coords :: "real option \<Rightarrow> real option \<Rightarrow> error + printed" where
  "format_coords xc yc =
     (case (xc, yc) of (Some x, Some y) \<Rightarrow> Inr (CoordLine x y) | _ \<Rightarrow> Inl TypeError)"

definition GUI_inter_on_key_press ::
  "plot_fn \<Rightarrow> key_event \<Rightarrow> figure \<times> printed list \<Rightarrow> error option \<times> (figure \<times> printed list)" where
  "GUI_inter_on_key_press plot event s =
     (case s of (fig, out) \<Rightarrow>
      let xc = xdata event; yc = ydata event in
      if key event = ''m'' then
        (case plot (artists fig) xc yc ''ro'' 5 of
           Inl e \<Rightarrow> (Some e, (fig, out))
         | Inr arts \<Rightarrow>
             (let fig' = fig\<lparr>artists := arts\<rparr>; method = canvas_draw_idle in
              (case format_coords xc yc of
                 Inl e \<Rightarrow> (Some e, (fig', out))
               | Inr line \<Rightarrow> (None, (fig', out @ [line])))))
      else (None, (fig, out)))"

subsection \<open>Sliders\<close>

text \<open>
  The traits of an \<open>IntSlider\<close>. The values a user can select are the integers from
  \<open>min\<close> to \<open>max\<close> in steps of \<open>step\<close>.
\<close>

record int_slider =
  slider_value :: int
  slider_min :: int
  slider_max :: int
  slider_step :: int

definition selectable :: "int_slider \<Rightarrow> int \<Rightarrow> bool" where
  "selectable sl v =
     (slider_min sl \<le> v \<and> v \<le> slider_max sl \<and> (v - slider_min sl) mod slider_step sl = 0)"

text \<open>The plotted line of the slider cells, and the redraws asked with \<open>draw()\<close>.\<close>

record line_figure =
  line_xdata :: "real list"
  line_ydata :: "real list"
  canvas_draws :: nat


text \<open>
  The calls of the plotting library that the slider and checkbox callbacks make on the
  line and the canvas: \<open>line.set_xdata\<close>, \<open>line.set_ydata\<close>, \<open>line2.set_visible\<close> and
  \<open>fig.canvas.draw()\<close>. Each gives the new state or raises. \<open>mpl_line\<close> is the
  library's own behaviour on arrays of numbers: the data or the flag is stored, the
  canvas is redrawn.
\<close>

record line_api =
  line_set_xdata :: "real list \<Rightarrow> line_figure \<Rightarrow> error + line_figure"
  line_set_ydata :: "real list \<Rightarrow> line_figure \<Rightarrow> error + line_figure"
  line_set_visible :: "bool \<Rightarrow> error + bool"
  canvas_redraw :: "line_figure \<Rightarrow> error + line_figure"

definition mpl_line :: line_api where
  "mpl_line =
     \<lparr>line_set_xdata = (\<lambda>xs f. Inr (f\<lparr>line_xdata := xs\<rparr>)),
      line_set_ydata = (\<lambda>ys f. Inr (f\<lparr>line_ydata := ys\<rparr>)),
      line_set_visible = (\<lambda>b. Inr b),
      canvas_redraw = (\<lambda>f. Inr (f\<lparr>canvas_draws := Suc (canvas_draws f)\<rparr>))\<rparr>"

text \<open>
  One statement of a callback that calls the library on the state: skipped when an
  exception is already on its way, otherwise the call's new state, or its exception
  with the state as it was.
\<close>

definition step :: "('s \<Rightarrow> error + 's) \<Rightarrow> error option \<times> 's \<Rightarrow> error option \<times> 's" where
  "step call r =
     (case r of
        (Some e, s) \<Rightarrow> (Some e, s)
      | (None, s) \<Rightarrow> (case call s of Inl e \<Rightarrow> (Some e, s) | Inr s' \<Rightarrow> (None, s')))"

text \<open>
  \<^verbatim>\<open>
  def update(change):
      line.set_ydata(image[change.new,:])
      fig.canvas.draw()
  \<close>
  \<open>update_with\<close> is the callback over any behaviour of the two library calls,
  \<open>update\<close> the callback with the library's own.
\<close>

definition update_with ::
  "line_api \<Rightarrow> ndarray \<Rightarrow> int \<Rightarrow> line_figure \<Rightarrow> error option \<times> line_figure" where
  "update_with api img new f =
     (case get_row img new of
        Inl e \<Rightarrow> (Some e, f)
      | Inr row \<Rightarrow> step (canvas_redraw api) (step (line_set_ydata api (data row)) (None, f)))"

definition update :: "ndarray \<Rightarrow> int \<Rightarrow> line_figure \<Rightarrow> error option \<times> line_figure" where
  "update img new f = update_with mpl_line img new f"

text \<open>
  \<^verbatim>\<open>
  zl,xl = image.shape
  slice = image[150,:]
  line, = p.plot(slice)
  int_slider = widgets.IntSlider(value=150, min=0, max=zl, step=1,
      description='Z-axis:', continuous_update=False)
  int_slider.observe(update, 'value')
  \<close>
\<close>

definition image_slider_cell :: "ndarray \<Rightarrow> error + (line_figure \<times> int_slider)" where
  "image_slider_cell img =
     bind_res (unpack2 (shape img)) (\<lambda>(zl, xl).
     bind_res (get_row img 150) (\<lambda>slice.
       Inr (\<lparr>line_xdata = map real [0..<length (data slice)], line_ydata = data slice,
             canvas_draws = 0\<rparr>,
            \<lparr>slider_value = 150, slider_min = 0, slider_max = int zl, slider_step = 1\<rparr>)))"

subsection \<open>Spectra\<close>



text \<open>
  A spectrum file is an HDU list; the data of its HDU 1 is a table, an array of
  records that all have the same named columns. \<open>tab['flux']\<close> is the column of that
  name, one entry per row, and a \<open>KeyError\<close> when the table has no such column.
\<close>

record table =
  colnames :: "string list"
  records :: "(string \<Rightarrow> real) list"

definition table_getitem :: "table \<Rightarrow> string \<Rightarrow> error + real list" where
  "table_getitem tab c =
     (if c \<in> set (colnames tab) then Inr (map (\<lambda>r. r c) (records tab)) else Inl KeyError)"

definition ext1 :: int where
  "ext1 = 1"

text \<open>
  The block that reads one spectrum, as it stands in the spectrum cells and in
  \<open>new_spec\<close>:
  \<^verbatim>\<open>
  pf[ext].header
  tab = pf[ext].data
  spec = tab['flux']
  wave = 10**tab['loglam']
  \<close>
  It gives the pair \<open>(wave, spec)\<close>.
\<close>

definition read_spectrum :: "table hdu list \<Rightarrow> error + (real list \<times> real list)" where
  "read_spectrum pf =
     bind_res (py_getitem pf ext1) (\<lambda>h.
     bind_res (hdu_header h) (\<lambda>cards.
     bind_res (py_getitem pf ext1) (\<lambda>h'.
     bind_res (hdu_data h') (\<lambda>tab.
     bind_res (table_getitem tab ''flux'') (\<lambda>spec.
     bind_res (table_getitem tab ''loglam'') (\<lambda>loglam.
     Inr (map (\<lambda>l. 10 powr l) loglam, spec)))))))"

text \<open>
  \<^verbatim>\<open>
  pf = sp[0]
  ext = 1
  pf[ext].header
  tab = pf[ext].data
  spec = tab['flux']
  wave = 10**tab['loglam']
  ax.plot(wave,spec)
  \<close>
  The cell gives the two arrays it plots against each other.
\<close>

definition spectrum_cell :: "table hdu list list \<Rightarrow> error + (real list \<times> real list)" where
  "spectrum_cell sp = bind_res (py_getitem sp 0) read_spectrum"

text \<open>
  \<^verbatim>\<open>
  def new_spec(change):
      pf = sp[change.new]
      pf[ext].header
      tab = pf[ext].data
      spec = tab['flux']
      wave = 10**tab['loglam']
      line.set_xdata(wave)
      line.set_ydata(spec)
      fig.canvas.draw()
  \<close>
\<close>

definition new_spec ::
  "line_api \<Rightarrow> table hdu list list \<Rightarrow> int \<Rightarrow> line_figure \<Rightarrow> error option \<times> line_figure" where
  "new_spec api sp new f =
     (case bind_res (py_getitem sp new) read_spectrum of
        Inl e \<Rightarrow> (Some e, f)
      | Inr (wav, spec) \<Rightarrow>
          step (canvas_redraw api)
            (step (line_set_ydata api spec)
              (step (line_set_xdata api wav) (None, f))))"

text \<open>
  \<^verbatim>\<open>
  ext = 1
  n_max = len(sp)-1 # total number of spectra - 1
  pf = sp[0]
  pf[ext].header
  tab = pf[ext].data
  spec = tab['flux']
  wave = 10**tab['loglam']
  line, = ax.plot(wave,spec)
  int_slider = widgets.IntSlider(value=0, min=0, max=n_max, step=1,
      description='Spectrum:', continuous_update=False)
  int_slider.observe(new_spec, 'value')
  \<close>
\<close>

definition spectrum_slider_cell ::
  "table hdu list list \<Rightarrow> error + (line_figure \<times> int_slider)" where
  "spectrum_slider_cell sp =
     (let n_max = int (length sp) - 1 in
      bind_res (py_getitem sp 0) (\<lambda>pf.
      bind_res (read_spectrum pf) (\<lambda>(wav, spec).
        Inr (\<lparr>line_xdata = wav, line_ydata = spec, canvas_draws = 0\<rparr>,
             \<lparr>slider_value = 0, slider_min = 0, slider_max = n_max, slider_step = 1\<rparr>))))"


subsection \<open>The effect of marking a point\<close>

text \<open>
  The figure after a single call \<open>plot(xc, yc, 'ro', markersize=5)\<close> made for the key
  \<open>m\<close>: the artists are the ones the call returns and nothing else is touched; when
  the call raises, or for another key, the figure is as before.
\<close>

definition marked :: "plot_fn \<Rightarrow> key_event \<Rightarrow> figure \<Rightarrow> figure" where
  "marked plot ev fig =
     (if key ev = ''m'' then
        (case plot (artists fig) (xdata ev) (ydata ev) ''ro'' 5 of
           Inl e \<Rightarrow> fig
         | Inr arts \<Rightarrow> fig\<lparr>artists := arts\<rparr>)
      else fig)"

section \<open>Instances for the examples\<close>

text \<open>
  A stand-in for the optimiser that respects the documented shapes: it returns the
  initial guess and a zero covariance.
\<close>

definition cf_demo :: curve_fit_fn where
  "cf_demo f xs ys guess sigma =
     Inr (guess, replicate (length guess) (replicate (length guess) 0))"

text \<open>
  An image of 151 rows and one column (the slider cell reads row 150), a 2 by 2 image
  with its figure, a list holding one spectrum file of one sample, a sky service that
  returns the 2 by 2 image, and key events: a key other than \<open>m\<close> and an \<open>m\<close> with
  the cursor outside the axes, an \<open>m\<close> at negative data coordinates, an \<open>m\<close> over the
  image.
\<close>

definition img_demo :: ndarray where
  "img_demo = \<lparr>shape = [151, 1], data = replicate 151 0\<rparr>"

definition img22 :: ndarray where
  "img22 = \<lparr>shape = [2, 2], data = [1, 2, 3, 4]\<rparr>"

definition fig0 :: figure where
  "fig0 = \<lparr>artists = [AxesImage img22], draw_idle_calls = 0, draw_calls = 0\<rparr>"

definition tab_demo :: table where
  "tab_demo =
     \<lparr>colnames = [''flux'', ''loglam''],
      records = [(\<lambda>c. if c = ''flux'' then 1 else 3)]\<rparr>"

definition sp_demo :: "table hdu list list" where
  "sp_demo =
     [[\<lparr>hdu_header = Inr [], hdu_data = Inl (LibraryError ''no table'')\<rparr>,
       \<lparr>hdu_header = Inr [], hdu_data = Inr tab_demo\<rparr>]]"

definition get_images_demo ::
  "string \<Rightarrow> string list \<Rightarrow> real \<Rightarrow> error + ndarray hdu list list" where
  "get_images_demo position survey radius = Inr [[\<lparr>hdu_header = Inr [], hdu_data = Inr img22\<rparr>]]"

definition key_outside :: key_event where
  "key_outside = \<lparr>key = ''x'', xdata = None, ydata = None\<rparr>"

definition mark_outside :: key_event where
  "mark_outside = \<lparr>key = ''m'', xdata = None, ydata = None\<rparr>"

definition mark_below :: key_event where
  "mark_below = \<lparr>key = ''m'', xdata = Some (- 1.2), ydata = Some (- 1.7)\<rparr>"

definition mark_inside :: key_event where
  "mark_inside = \<lparr>key = ''m'', xdata = Some 1.2, ydata = Some 0.4\<rparr>"

section \<open>Theorems\<close>

subsection \<open>The fitting notebook\<close>

lemma length_linspace: "length (linspace a b n) = n"
  by (simp add: linspace_def)

lemma length_wave: "length wave = 100"
  by (simp add: wave_def length_linspace)

lemma length_flux: "length flux = 100"
  by (simp add: flux_def length_wave)

lemma wave_nonneg: "w \<in> set wave \<Longrightarrow> 0 \<le> w"
  by (auto simp: wave_def linspace_def)

lemma flux_ge: "v \<in> set flux \<Longrightarrow> 500 \<le> v"
  by (auto simp: flux_def cont_zp_def cont_slope_def amplitude_def dest!: wave_nonneg intro!: add_nonneg_nonneg)

lemma flux_no_negative: "\<not> list_ex (\<lambda>l. l < 0) flux"
  using flux_ge by (fastforce simp: list_ex_iff)

lemma fst_poisson_draws_Cons:
  "fst (poisson_draws draw g (l # ls))
     = fst (draw g l) # fst (poisson_draws draw (snd (draw g l)) ls)"
  by (simp split: prod.splits)

lemma snd_poisson_draws_Cons:
  "snd (poisson_draws draw g (l # ls)) = snd (poisson_draws draw (snd (draw g l)) ls)"
  by (simp split: prod.splits)

lemma length_poisson_draws: "length (fst (poisson_draws draw g lam)) = length lam"
  by (induction lam arbitrary: g) (simp_all only: fst_poisson_draws_Cons, simp_all)

lemma poisson_draws_nth:
  "i < length lam \<Longrightarrow>
   fst (poisson_draws draw g lam) ! i
     = fst (draw (snd (poisson_draws draw g (take i lam))) (lam ! i))"
proof (induction lam arbitrary: g i)
  case Nil
  then show ?case by simp
next
  case (Cons l ls)
  show ?case
  proof (cases i)
    case 0
    then show ?thesis by (simp only: fst_poisson_draws_Cons) simp
  next
    case (Suc j)
    with Cons.prems have j: "j < length ls" by simp
    from Cons.IH[OF j, of "snd (draw g l)"] Suc show ?thesis
      by (simp only: fst_poisson_draws_Cons snd_poisson_draws_Cons take_Suc_Cons nth_Cons_Suc)
  qed
qed

lemma model_star_accepts: "(\<exists>ys. model_star xs ps = Inr ys) \<longleftrightarrow> length ps = 5"
proof
  assume "\<exists>ys. model_star xs ps = Inr ys"
  then show "length ps = 5"
    by (auto simp: model_star_def split: list.splits)
next
  assume "length ps = 5"
  then obtain a b c d e where "ps = [a, b, c, d, e]"
    by (auto simp: length_Suc_conv eval_nat_numeral)
  then show "\<exists>ys. model_star xs ps = Inr ys"
    by (simp add: model_star_def)
qed

lemma cf_demo_shapes: "curve_fit_shapes cf_demo"
  by (simp add: curve_fit_shapes_def cf_demo_def list_all_iff)

text \<open>
  Claim C1. The least-squares fit is over exactly five scalar parameters (continuum
  zero-point, continuum slope, line amplitude, line center, line width): the initial
  guess handed to \<open>curve_fit\<close> has five entries, the model function takes exactly five
  parameters after the abscissa, and so, \<open>curve_fit\<close> returning a best-fit vector of
  the length of the guess and a square covariance of that size, \<open>popt\<close> has length 5
  and \<open>pcov\<close> is 5 by 5.
\<close>

theorem fit_has_five_parameters:
  "length p0 = 5
   \<and> ((\<exists>ys. model_star xs ps = Inr ys) \<longleftrightarrow> length ps = 5)
   \<and> (curve_fit_shapes cf \<longrightarrow> fit cf obs = Inr (popt, pcov) \<longrightarrow>
        length popt = 5 \<and> length pcov = 5 \<and> list_all (\<lambda>row. length row = 5) pcov
        \<and> (\<exists>ys. model_star wave popt = Inr ys))"
proof -
  have a: "length p0 = 5" by (simp add: p0_def)
  have c: "length popt = 5 \<and> length pcov = 5 \<and> list_all (\<lambda>row. length row = 5) pcov
        \<and> (\<exists>ys. model_star wave popt = Inr ys)"
    if "curve_fit_shapes cf" and "fit cf obs = Inr (popt, pcov)"
  proof -
    from that have "length popt = length p0 \<and> length pcov = length p0
          \<and> list_all (\<lambda>row. length row = length p0) pcov"
      unfolding curve_fit_shapes_def fit_def by blast
    with a show ?thesis by (simp add: model_star_accepts)
  qed
  from a c model_star_accepts show ?thesis by blast
qed

theorem fit_has_five_parameters_witness:
  "curve_fit_shapes cf_demo
   \<and> fit cf_demo [500, 510] = Inr (p0, replicate (length p0) (replicate (length p0) 0))
   \<and> length p0 = 5
   \<and> length (replicate (length p0) (replicate (length p0) (0::real))) = 5
   \<and> (\<exists>ys. model_star wave p0 = Inr ys)"
proof -
  have f: "fit cf_demo [500, 510]
             = Inr (p0, replicate (length p0) (replicate (length p0) 0))"
    by (simp add: fit_def cf_demo_def)
  from fit_has_five_parameters[of wave p0 cf_demo "[500, 510]" p0
      "replicate (length p0) (replicate (length p0) 0)"] cf_demo_shapes f
  show ?thesis by blast
qed

text \<open>
  Claim C2. The Gaussian-plus-continuum model is the same formula wherever it appears:
  the function \<open>model\<close> passed to \<open>curve_fit\<close>, the compound model
  \<open>Gaussian1D(amplitude=amp, mean=center, stddev=width) + Linear1D(slope=slope,
  intercept=cont)\<close> and the true flux array of the data-generation cell all equal
  \<open>amp * exp (- (x - center)\<^sup>2 / (2 * width\<^sup>2)) + cont + slope * x\<close>, the last one at the
  true parameters over the wavelength grid.
\<close>

theorem model_is_textbook_formula:
  "model x cont slope amp c w = gaussian_plus_continuum x cont slope amp c w
   \<and> compound_add (Gaussian1D amp c w) (Linear1D slope cont) x
       = gaussian_plus_continuum x cont slope amp c w
   \<and> flux = map (\<lambda>x. gaussian_plus_continuum x cont_zp cont_slope amplitude center width) wave"
  by (simp add: model_def gaussian_plus_continuum_def compound_add_def Gaussian1D_def
      Linear1D_def flux_def)

text \<open>
  Claim C3. The synthetic-data step is a thin call into the random generator: the
  observed flux is the generator's Poisson draw over the true flux array and nothing
  else, one draw per wavelength channel whose mean is the true flux of that channel;
  the true flux is non-negative in every channel, as the generator requires.
\<close>

theorem obs_flux_is_poisson_of_flux:
  "obs_flux draw g = Inr (poisson_draws draw g flux)
   \<and> length (fst (poisson_draws draw g flux)) = length wave
   \<and> (\<forall>i < length wave.
        0 \<le> flux ! i
        \<and> fst (poisson_draws draw g flux) ! i
            = fst (draw (snd (poisson_draws draw g (take i flux))) (flux ! i)))"
proof -
  have a: "obs_flux draw g = Inr (poisson_draws draw g flux)"
    by (simp add: obs_flux_def random_poisson_def flux_no_negative)
  have b: "length (fst (poisson_draws draw g flux)) = length wave"
    by (simp add: length_poisson_draws length_flux length_wave)
  have c: "0 \<le> flux ! i" if "i < length wave" for i
  proof -
    from that have "flux ! i \<in> set flux" by (simp add: length_flux length_wave)
    from flux_ge[OF this] show ?thesis by simp
  qed
  have d: "fst (poisson_draws draw g flux) ! i
            = fst (draw (snd (poisson_draws draw g (take i flux))) (flux ! i))"
    if "i < length wave" for i
    using that by (intro poisson_draws_nth) (simp add: length_flux length_wave)
  from a b c d show ?thesis by blast
qed

theorem obs_flux_is_poisson_of_flux_witness:
  "0 < length wave \<and> 0 \<le> flux ! 0
   \<and> fst (poisson_draws (\<lambda>g l. (nat \<lfloor>l\<rfloor>, Suc g)) 0 flux) ! 0 = nat \<lfloor>flux ! 0\<rfloor>"
proof -
  have h: "0 < length wave" by (simp add: length_wave)
  from obs_flux_is_poisson_of_flux[of "\<lambda>g l. (nat \<lfloor>l\<rfloor>, Suc g)" 0] h
  have "0 \<le> flux ! 0
        \<and> fst (poisson_draws (\<lambda>g l. (nat \<lfloor>l\<rfloor>, Suc g)) 0 flux) ! 0
            = fst ((\<lambda>g l. (nat \<lfloor>l\<rfloor>, Suc g))
                 (snd (poisson_draws (\<lambda>g l. (nat \<lfloor>l\<rfloor>, Suc g)) 0 (take 0 flux))) (flux ! 0))"
    by blast
  with h show ?thesis by simp
qed

subsection \<open>The interactive-plotting notebook\<close>


lemma bind_res_Inr:
  "bind_res m f = Inr r \<longleftrightarrow> (\<exists>v. m = Inr v \<and> f v = Inr r)"
  by (cases m) (auto simp: bind_res_def)

lemma step_Some:
  "fst (step call (None, s)) = Some e \<longleftrightarrow> call s = Inl e"
  by (simp add: step_def split: sum.splits)

lemma step_raised: "step call (Some e, s) = (Some e, s)"
  by (simp add: step_def)

lemma step_ok: "call s = Inr s' \<Longrightarrow> step call (None, s) = (None, s')"
  by (simp add: step_def)

lemma step_fail: "call s = Inl e \<Longrightarrow> step call (None, s) = (Some e, s)"
  by (simp add: step_def)

lemma py_getitem_in_range:
  "0 \<le> i \<Longrightarrow> i < int (length xs) \<Longrightarrow> py_getitem xs i = Inr (xs ! nat i)"
  by (simp add: py_getitem_def norm_index_def bind_res_def)

lemma get_row_2d:
  "shape img = [zl, xl] \<Longrightarrow>
   get_row img i =
     (if - int zl \<le> i \<and> i < int zl
      then Inr \<lparr>shape = [xl],
                data = take xl (drop (nat (if i < 0 then i + int zl else i) * xl) (data img))\<rparr>
      else Inl IndexError)"
  by (simp add: get_row_def norm_index_def bind_res_def)

lemma unpack2_Inr: "unpack2 t = Inr (a, b) \<longleftrightarrow> t = [a, b]"
  by (auto simp: unpack2_def split: list.splits)

lemma update_eq:
  "update img new f =
     (case get_row img new of
        Inl e \<Rightarrow> (Some e, f)
      | Inr row \<Rightarrow> (None, f\<lparr>line_ydata := data row, canvas_draws := Suc (canvas_draws f)\<rparr>))"
  by (simp add: update_def update_with_def mpl_line_def step_def split: sum.splits)

text \<open>
  Claim C5. The image-row slider is created with \<open>min=0\<close> and \<open>max=zl\<close>, where
  \<open>(zl, xl) = image.shape\<close>: its maximum is selectable and makes \<open>update\<close> evaluate
  \<open>image[zl, :]\<close>, one past the last row, an \<open>IndexError\<close>; every selectable value
  below the maximum is a row index in bounds. The maximum of the spectrum slider is
  \<open>len(sp)-1\<close>, and every selectable value of it indexes the list of spectra in bounds.
\<close>

theorem slider_ranges:
  "(image_slider_cell img = Inr (f, sl) \<longrightarrow>
      (\<exists>zl xl. shape img = [zl, xl] \<and> slider_min sl = 0 \<and> slider_max sl = int zl)
      \<and> selectable sl (slider_max sl)
      \<and> update img (slider_max sl) g = (Some IndexError, g)
      \<and> (\<forall>v. selectable sl v \<and> v < slider_max sl \<longrightarrow>
             (\<exists>row. get_row img v = Inr row) \<and> fst (update img v g) = None))
   \<and> (spectrum_slider_cell sp = Inr (f', sl') \<longrightarrow>
      slider_min sl' = 0 \<and> slider_max sl' = int (length sp) - 1
      \<and> (\<forall>v. selectable sl' v \<longrightarrow> py_getitem sp v = Inr (sp ! nat v)))"
proof (intro conjI impI)
  assume cell: "image_slider_cell img = Inr (f, sl)"
  then obtain zl xl where sh: "shape img = [zl, xl]"
    and sl: "sl = \<lparr>slider_value = 150, slider_min = 0, slider_max = int zl, slider_step = 1\<rparr>"
    by (auto simp: image_slider_cell_def bind_res_Inr unpack2_Inr)
  show "\<exists>zl xl. shape img = [zl, xl] \<and> slider_min sl = 0 \<and> slider_max sl = int zl"
    using sh sl by simp
  show "selectable sl (slider_max sl)"
    using sl by (simp add: selectable_def)
  show "update img (slider_max sl) g = (Some IndexError, g)"
    using sh sl by (simp add: update_eq get_row_2d)
  show "\<forall>v. selectable sl v \<and> v < slider_max sl \<longrightarrow>
          (\<exists>row. get_row img v = Inr row) \<and> fst (update img v g) = None"
    using sh sl by (auto simp: selectable_def update_eq get_row_2d)
next
  assume cell: "spectrum_slider_cell sp = Inr (f', sl')"
  then have sl: "sl' = \<lparr>slider_value = 0, slider_min = 0,
                        slider_max = int (length sp) - 1, slider_step = 1\<rparr>"
    by (auto simp: spectrum_slider_cell_def Let_def bind_res_Inr)
  show "slider_min sl' = 0" using sl by simp
  show "slider_max sl' = int (length sp) - 1" using sl by simp
  show "\<forall>v. selectable sl' v \<longrightarrow> py_getitem sp v = Inr (sp ! nat v)"
    using sl by (auto simp: selectable_def intro!: py_getitem_in_range)
qed

lemma image_slider_cell_demo:
  "image_slider_cell img_demo =
     Inr (\<lparr>line_xdata = [0], line_ydata = [0], canvas_draws = 0\<rparr>,
          \<lparr>slider_value = 150, slider_min = 0, slider_max = 151, slider_step = 1\<rparr>)"
  by (simp add: image_slider_cell_def img_demo_def unpack2_def bind_res_def get_row_def
      norm_index_def)

lemma read_spectrum_demo:
  "read_spectrum (sp_demo ! 0) = Inr ([1000], [1])"
  by (simp add: read_spectrum_def sp_demo_def py_getitem_def bind_res_def norm_index_def
      ext1_def table_getitem_def tab_demo_def)

lemma spectrum_slider_cell_demo:
  "spectrum_slider_cell sp_demo =
     Inr (\<lparr>line_xdata = [1000], line_ydata = [1], canvas_draws = 0\<rparr>,
          \<lparr>slider_value = 0, slider_min = 0, slider_max = 0, slider_step = 1\<rparr>)"
proof -
  have "py_getitem sp_demo 0 = Inr (sp_demo ! 0)"
    by (simp add: py_getitem_def norm_index_def bind_res_def sp_demo_def)
  then show ?thesis
    by (simp add: spectrum_slider_cell_def bind_res_def read_spectrum_demo)
       (simp add: sp_demo_def)
qed

theorem slider_ranges_witness:
  "image_slider_cell img_demo =
     Inr (\<lparr>line_xdata = [0], line_ydata = [0], canvas_draws = 0\<rparr>,
          \<lparr>slider_value = 150, slider_min = 0, slider_max = 151, slider_step = 1\<rparr>)
   \<and> update img_demo 151 \<lparr>line_xdata = [0], line_ydata = [0], canvas_draws = 0\<rparr>
       = (Some IndexError, \<lparr>line_xdata = [0], line_ydata = [0], canvas_draws = 0\<rparr>)
   \<and> fst (update img_demo 150 \<lparr>line_xdata = [0], line_ydata = [0], canvas_draws = 0\<rparr>) = None
   \<and> spectrum_slider_cell sp_demo =
     Inr (\<lparr>line_xdata = [1000], line_ydata = [1], canvas_draws = 0\<rparr>,
          \<lparr>slider_value = 0, slider_min = 0, slider_max = 0, slider_step = 1\<rparr>)
   \<and> py_getitem sp_demo 0 = Inr (sp_demo ! nat 0)"
proof -
  let ?f = "\<lparr>line_xdata = [0], line_ydata = [0], canvas_draws = 0\<rparr>"
  let ?sl = "\<lparr>slider_value = 150, slider_min = 0, slider_max = 151, slider_step = 1\<rparr>"
  let ?f' = "\<lparr>line_xdata = [1000], line_ydata = [1], canvas_draws = 0\<rparr>"
  let ?sl' = "\<lparr>slider_value = 0, slider_min = 0, slider_max = 0, slider_step = 1\<rparr>"
  have s1: "selectable ?sl 150 \<and> 150 < slider_max ?sl" by (simp add: selectable_def)
  have s2: "selectable ?sl' 0" by (simp add: selectable_def)
  from slider_ranges[of img_demo ?f ?sl ?f sp_demo ?f' ?sl']
    image_slider_cell_demo spectrum_slider_cell_demo s1 s2
  show ?thesis by auto
qed

lemma get_item2_2d:
  "shape img = [rows, cols] \<Longrightarrow>
   get_item2 img i j =
     (if - int rows \<le> i \<and> i < int rows \<and> - int cols \<le> j \<and> j < int cols
      then Inr \<lparr>shape = [],
                data = take 1 (drop (nat (if i < 0 then i + int rows else i) * cols
                                      + nat (if j < 0 then j + int cols else j)) (data img))\<rparr>
      else Inl IndexError)"
  by (simp add: get_item2_def norm_index_def bind_res_def)

lemma image_at_coords: "image_at img (Some y) (Some x) = get_item2 img (trunc y) (trunc x)"
  by (simp add: image_at_def py_int_def bind_res_def)

lemma image_at_None:
  "xc = None \<or> yc = None \<Longrightarrow> image_at img yc xc = Inl TypeError"
  by (cases yc; cases xc) (auto simp: image_at_def py_int_def bind_res_def)

lemma cell_in_data:
  assumes "k < rows" "l < cols" "length xs = rows * cols"
  shows "take 1 (drop (k * cols + l) xs) = [xs ! (k * cols + l)]"
proof -
  have "k * cols + l < Suc k * cols" using assms(2) by simp
  also have "\<dots> \<le> rows * cols" using assms(1) by (intro mult_le_mono1) simp
  finally have "k * cols + l < length xs" using assms(3) by simp
  then show ?thesis
    by (simp add: take_Suc_conv_app_nth)
qed

lemma pixel_in_range:
  assumes sh: "shape img = [rows, cols]" and ws: "well_shaped img"
    and i: "0 \<le> i" "i < int rows" and j: "0 \<le> j" "j < int cols"
  shows "get_item2 img i j = Inr \<lparr>shape = [], data = [data img ! (nat i * cols + nat j)]\<rparr>"
proof -
  from ws sh have len: "length (data img) = rows * cols" by (simp add: well_shaped_def)
  from i j have "nat i < rows" "nat j < cols" by simp_all
  from cell_in_data[OF this len] sh i j show ?thesis
    by (simp add: get_item2_2d)
qed

lemma trunc_vals:
  "trunc (- (6 / 5)) = - 1" "trunc (- (17 / 10)) = - 1" "trunc (6 / 5) = 1" "trunc (2 / 5) = 0"
  by (simp_all add: trunc_def)

lemma Output_capture_never_raises: "fst (Output_capture func ev s) = None"
  by (simp add: Output_capture_def split: prod.splits option.splits)

lemma Output_capture_returned:
  "func ev s = (None, s') \<Longrightarrow> Output_capture func ev s = (None, s')"
  by (simp add: Output_capture_def)

lemma Output_capture_raised:
  "func ev s = (Some e, (fig', out')) \<Longrightarrow>
   Output_capture func ev s = (None, (fig', out' @ [Traceback e]))"
  by (simp add: Output_capture_def)

lemma pixel_other_key:
  "key ev \<noteq> ''m'' \<Longrightarrow> on_key_press_pixel plot img ev s = (None, s)"
  by (cases s) (simp add: on_key_press_pixel_def)

lemma pixel_no_coords:
  assumes "key ev = ''m''" and "xdata ev = None \<or> ydata ev = None"
  shows "on_key_press_pixel plot img ev (fig, out)
           = (Some (case plot (artists fig) (xdata ev) (ydata ev) ''ro'' 5 of
                      Inl e \<Rightarrow> e | Inr arts \<Rightarrow> TypeError),
              (marked plot ev fig, out))"
proof -
  from assms(2) have "image_at img (ydata ev) (xdata ev) = Inl TypeError"
    using image_at_None[of "xdata ev" "ydata ev" img] by blast
  with assms(1) show ?thesis
    by (simp add: on_key_press_pixel_def marked_def bind_res_def split: sum.splits)
qed

lemma pixel_printed:
  assumes "shape img = [rows, cols]" "well_shaped img"
    and "0 \<le> trunc y" "trunc y < int rows" "0 \<le> trunc x" "trunc x < int cols"
    and "key ev = ''m''" "xdata ev = Some x" "ydata ev = Some y"
    and "plot (artists fig) (Some x) (Some y) ''ro'' 5 = Inr arts"
  shows "on_key_press_pixel plot img ev (fig, out)
          = (None, (fig\<lparr>artists := arts\<rparr>,
                    out @ [PixelLine x y (data img ! (nat (trunc y) * cols + nat (trunc x)))]))"
proof -
  have "get_item2 img (trunc y) (trunc x)
      = Inr \<lparr>shape = [], data = [data img ! (nat (trunc y) * cols + nat (trunc x))]\<rparr>"
    using pixel_in_range[of img rows cols "trunc y" "trunc x"] assms by blast
  with assms show ?thesis
    by (simp add: on_key_press_pixel_def image_at_coords bind_res_def format_pixel_def
        as_scalar_def)
qed

lemma pixel_out_of_range:
  assumes "shape img = [rows, cols]"
    and "\<not> (- int rows \<le> trunc y \<and> trunc y < int rows
            \<and> - int cols \<le> trunc x \<and> trunc x < int cols)"
    and "key ev = ''m''" "xdata ev = Some x" "ydata ev = Some y"
    and "plot (artists fig) (Some x) (Some y) ''ro'' 5 = Inr arts"
  shows "on_key_press_pixel plot img ev (fig, out)
          = (Some IndexError, (fig\<lparr>artists := arts\<rparr>, out))"
proof -
  have "get_item2 img (trunc y) (trunc x) = Inl IndexError"
    using assms(1,2) by (simp add: get_item2_2d)
  with assms show ?thesis
    by (simp add: on_key_press_pixel_def image_at_coords bind_res_def)
qed

text \<open>
  Claim C9, as amended. The key-press callback that prints the marked pixel value acts
  on the key \<open>m\<close> only: any other key leaves the state as it is and raises nothing,
  wherever the cursor is. On \<open>m\<close> with coordinates, the marker is plotted and the
  image is indexed as \<open>image[int(yc), int(xc)]\<close>, row from y and column from x, both
  truncated toward zero. On a 2-D image the subscript returns exactly when
  \<open>-rows \<le> int(yc) < rows\<close> and \<open>-columns \<le> int(xc) < columns\<close> and raises
  \<open>IndexError\<close> otherwise; when \<open>0 \<le> int(yc) < rows\<close> and
  \<open>0 \<le> int(xc) < columns\<close> it is the pixel of that row and column, which the
  callback prints into the output widget. On \<open>m\<close> with the cursor outside the axes,
  \<open>event.xdata\<close> and \<open>event.ydata\<close> are \<open>None\<close> and the function body raises: the
  exception of the plot call if that rejects the coordinates, the \<open>TypeError\<close> of the
  integer conversion otherwise. The function is decorated with \<open>out.capture()\<close>: the
  registered callback never raises, and an exception of the body (the one of the
  missing coordinates, or the \<open>IndexError\<close> of the subscript) appears in the output
  widget as a traceback, after whatever the body did to the figure.
\<close>

theorem pixel_callback_behaviour:
  "fst (on_key_press_out plot img ev s) = None
   \<and> (key ev \<noteq> ''m'' \<longrightarrow>
        on_key_press_pixel plot img ev s = (None, s)
        \<and> on_key_press_out plot img ev s = (None, s))
   \<and> (key ev = ''m'' \<and> (xdata ev = None \<or> ydata ev = None) \<longrightarrow>
        fst (on_key_press_pixel plot img ev (fig, out))
          = Some (case plot (artists fig) (xdata ev) (ydata ev) ''ro'' 5 of
                    Inl e \<Rightarrow> e | Inr arts \<Rightarrow> TypeError)
        \<and> on_key_press_out plot img ev (fig, out)
          = (None, (marked plot ev fig,
                    out @ [Traceback (case plot (artists fig) (xdata ev) (ydata ev) ''ro'' 5 of
                                        Inl e \<Rightarrow> e | Inr arts \<Rightarrow> TypeError)])))
   \<and> image_at img (Some y) (Some x) = get_item2 img (trunc y) (trunc x)
   \<and> (shape img = [rows, cols] \<longrightarrow>
        ((\<exists>v. get_item2 img i j = Inr v)
           \<longleftrightarrow> - int rows \<le> i \<and> i < int rows \<and> - int cols \<le> j \<and> j < int cols)
        \<and> ((\<exists>v. get_item2 img i j = Inr v) \<or> get_item2 img i j = Inl IndexError))
   \<and> (shape img = [rows, cols] \<and> well_shaped img
        \<and> 0 \<le> i \<and> i < int rows \<and> 0 \<le> j \<and> j < int cols \<longrightarrow>
        get_item2 img i j = Inr \<lparr>shape = [], data = [data img ! (nat i * cols + nat j)]\<rparr>)
   \<and> (shape img = [rows, cols] \<and> well_shaped img
        \<and> 0 \<le> trunc y \<and> trunc y < int rows \<and> 0 \<le> trunc x \<and> trunc x < int cols
        \<and> key ev = ''m'' \<and> xdata ev = Some x \<and> ydata ev = Some y
        \<and> plot (artists fig) (Some x) (Some y) ''ro'' 5 = Inr arts \<longrightarrow>
        on_key_press_pixel plot img ev (fig, out)
          = (None, (fig\<lparr>artists := arts\<rparr>,
                    out @ [PixelLine x y (data img ! (nat (trunc y) * cols + nat (trunc x)))]))
        \<and> on_key_press_out plot img ev (fig, out)
          = (None, (fig\<lparr>artists := arts\<rparr>,
                    out @ [PixelLine x y (data img ! (nat (trunc y) * cols + nat (trunc x)))])))
   \<and> (shape img = [rows, cols]
        \<and> \<not> (- int rows \<le> trunc y \<and> trunc y < int rows
               \<and> - int cols \<le> trunc x \<and> trunc x < int cols)
        \<and> key ev = ''m'' \<and> xdata ev = Some x \<and> ydata ev = Some y
        \<and> plot (artists fig) (Some x) (Some y) ''ro'' 5 = Inr arts \<longrightarrow>
        on_key_press_pixel plot img ev (fig, out)
          = (Some IndexError, (fig\<lparr>artists := arts\<rparr>, out))
        \<and> on_key_press_out plot img ev (fig, out)
          = (None, (fig\<lparr>artists := arts\<rparr>, out @ [Traceback IndexError])))"
proof (intro conjI impI)
  show "fst (on_key_press_out plot img ev s) = None"
    by (simp add: on_key_press_out_def Output_capture_never_raises)
next
  assume "key ev \<noteq> ''m''"
  then show "on_key_press_pixel plot img ev s = (None, s)"
    by (rule pixel_other_key)
next
  assume "key ev \<noteq> ''m''"
  then have "on_key_press_pixel plot img ev s = (None, s)"
    by (rule pixel_other_key)
  then show "on_key_press_out plot img ev s = (None, s)"
    unfolding on_key_press_out_def by (rule Output_capture_returned)
next
  assume a: "key ev = ''m'' \<and> (xdata ev = None \<or> ydata ev = None)"
  then show "fst (on_key_press_pixel plot img ev (fig, out))
          = Some (case plot (artists fig) (xdata ev) (ydata ev) ''ro'' 5 of
                    Inl e \<Rightarrow> e | Inr arts \<Rightarrow> TypeError)"
    using pixel_no_coords[of ev plot img fig out] by simp
next
  assume a: "key ev = ''m'' \<and> (xdata ev = None \<or> ydata ev = None)"
  then have "on_key_press_pixel plot img ev (fig, out)
           = (Some (case plot (artists fig) (xdata ev) (ydata ev) ''ro'' 5 of
                      Inl e \<Rightarrow> e | Inr arts \<Rightarrow> TypeError),
              (marked plot ev fig, out))"
    using pixel_no_coords[of ev plot img fig out] by blast
  then show "on_key_press_out plot img ev (fig, out)
          = (None, (marked plot ev fig,
                    out @ [Traceback (case plot (artists fig) (xdata ev) (ydata ev) ''ro'' 5 of
                                        Inl e \<Rightarrow> e | Inr arts \<Rightarrow> TypeError)]))"
    unfolding on_key_press_out_def by (rule Output_capture_raised)
next
  show "image_at img (Some y) (Some x) = get_item2 img (trunc y) (trunc x)"
    by (rule image_at_coords)
next
  assume "shape img = [rows, cols]"
  then show "(\<exists>v. get_item2 img i j = Inr v)
           \<longleftrightarrow> - int rows \<le> i \<and> i < int rows \<and> - int cols \<le> j \<and> j < int cols"
    by (simp add: get_item2_2d)
next
  assume "shape img = [rows, cols]"
  then show "(\<exists>v. get_item2 img i j = Inr v) \<or> get_item2 img i j = Inl IndexError"
    by (simp add: get_item2_2d)
next
  assume "shape img = [rows, cols] \<and> well_shaped img
        \<and> 0 \<le> i \<and> i < int rows \<and> 0 \<le> j \<and> j < int cols"
  then show "get_item2 img i j = Inr \<lparr>shape = [], data = [data img ! (nat i * cols + nat j)]\<rparr>"
    using pixel_in_range[of img rows cols i j] by blast
next
  assume a: "shape img = [rows, cols] \<and> well_shaped img
        \<and> 0 \<le> trunc y \<and> trunc y < int rows \<and> 0 \<le> trunc x \<and> trunc x < int cols
        \<and> key ev = ''m'' \<and> xdata ev = Some x \<and> ydata ev = Some y
        \<and> plot (artists fig) (Some x) (Some y) ''ro'' 5 = Inr arts"
  then show "on_key_press_pixel plot img ev (fig, out)
          = (None, (fig\<lparr>artists := arts\<rparr>,
                    out @ [PixelLine x y (data img ! (nat (trunc y) * cols + nat (trunc x)))]))"
    using pixel_printed[of img rows cols y x ev plot fig arts out] by blast
next
  assume a: "shape img = [rows, cols] \<and> well_shaped img
        \<and> 0 \<le> trunc y \<and> trunc y < int rows \<and> 0 \<le> trunc x \<and> trunc x < int cols
        \<and> key ev = ''m'' \<and> xdata ev = Some x \<and> ydata ev = Some y
        \<and> plot (artists fig) (Some x) (Some y) ''ro'' 5 = Inr arts"
  then have "on_key_press_pixel plot img ev (fig, out)
          = (None, (fig\<lparr>artists := arts\<rparr>,
                    out @ [PixelLine x y (data img ! (nat (trunc y) * cols + nat (trunc x)))]))"
    using pixel_printed[of img rows cols y x ev plot fig arts out] by blast
  then show "on_key_press_out plot img ev (fig, out)
          = (None, (fig\<lparr>artists := arts\<rparr>,
                    out @ [PixelLine x y (data img ! (nat (trunc y) * cols + nat (trunc x)))]))"
    unfolding on_key_press_out_def by (rule Output_capture_returned)
next
  assume a: "shape img = [rows, cols]
        \<and> \<not> (- int rows \<le> trunc y \<and> trunc y < int rows
               \<and> - int cols \<le> trunc x \<and> trunc x < int cols)
        \<and> key ev = ''m'' \<and> xdata ev = Some x \<and> ydata ev = Some y
        \<and> plot (artists fig) (Some x) (Some y) ''ro'' 5 = Inr arts"
  then show "on_key_press_pixel plot img ev (fig, out)
          = (Some IndexError, (fig\<lparr>artists := arts\<rparr>, out))"
    using pixel_out_of_range[of img rows cols y x ev plot fig arts out] by blast
next
  assume a: "shape img = [rows, cols]
        \<and> \<not> (- int rows \<le> trunc y \<and> trunc y < int rows
               \<and> - int cols \<le> trunc x \<and> trunc x < int cols)
        \<and> key ev = ''m'' \<and> xdata ev = Some x \<and> ydata ev = Some y
        \<and> plot (artists fig) (Some x) (Some y) ''ro'' 5 = Inr arts"
  then have "on_key_press_pixel plot img ev (fig, out)
          = (Some IndexError, (fig\<lparr>artists := arts\<rparr>, out))"
    using pixel_out_of_range[of img rows cols y x ev plot fig arts out] by blast
  then show "on_key_press_out plot img ev (fig, out)
          = (None, (fig\<lparr>artists := arts\<rparr>, out @ [Traceback IndexError]))"
    unfolding on_key_press_out_def by (rule Output_capture_raised)
qed

lemma Axes_plot_coords:
  "Axes_plot arts (Some x) (Some y) fmt ms = Inr (arts @ [Line2D [x] [y] fmt (Some ms)])"
  by (simp add: Axes_plot_def)

lemma Axes_plot_None:
  "x = None \<or> y = None \<Longrightarrow> Axes_plot arts x y fmt ms = Inl ValueError"
  by (cases x; cases y) (auto simp: Axes_plot_def)

text \<open>
  The claim as stated fails in three places. A key press with the cursor outside the
  axes that is not \<open>m\<close> converts nothing and raises nothing. An \<open>m\<close> at data
  coordinates that truncate to \<open>-1\<close> is indexed from the far edge of the image and
  printed, although \<open>0 \<le> int(yc)\<close> does not hold. And an \<open>m\<close> outside the axes does
  not fail in the integer conversion: the plot call rejects the missing coordinates
  first, and the registered callback shows that exception in the widget and returns.
\<close>

theorem pixel_callback_counterexample:
  "on_key_press_out Axes_plot img22 key_outside (fig0, []) = (None, (fig0, []))
   \<and> \<not> (0 \<le> trunc (- 1.7))
   \<and> on_key_press_out Axes_plot img22 mark_below (fig0, [])
       = (None, (fig0\<lparr>artists := [AxesImage img22, Line2D [- 1.2] [- 1.7] ''ro'' (Some 5)]\<rparr>,
                 [PixelLine (- 1.2) (- 1.7) 4]))
   \<and> on_key_press_pixel Axes_plot img22 mark_outside (fig0, []) = (Some ValueError, (fig0, []))
   \<and> on_key_press_out Axes_plot img22 mark_outside (fig0, [])
       = (None, (fig0, [Traceback ValueError]))"
  by (simp add: on_key_press_out_def Output_capture_def on_key_press_pixel_def key_outside_def
      mark_below_def mark_outside_def Axes_plot_def fig0_def
      image_at_coords trunc_vals get_item2_def img22_def norm_index_def bind_res_def
      format_pixel_def as_scalar_def)

theorem pixel_callback_behaviour_witness:
  "on_key_press_out Axes_plot img22 key_outside (fig0, []) = (None, (fig0, []))
   \<and> fst (on_key_press_pixel Axes_plot img22 mark_outside (fig0, [])) = Some ValueError
   \<and> on_key_press_out Axes_plot img22 mark_outside (fig0, [])
       = (None, (fig0, [Traceback ValueError]))
   \<and> get_item2 img22 1 0 = Inr \<lparr>shape = [], data = [3]\<rparr>
   \<and> on_key_press_out Axes_plot img22 mark_inside (fig0, [])
       = (None, (fig0\<lparr>artists := [AxesImage img22, Line2D [1.2] [0.4] ''ro'' (Some 5)]\<rparr>,
                 [PixelLine 1.2 0.4 2]))
   \<and> on_key_press_out Axes_plot img_demo mark_inside (fig0, [])
       = (None, (fig0\<lparr>artists := [AxesImage img22, Line2D [1.2] [0.4] ''ro'' (Some 5)]\<rparr>,
                 [Traceback IndexError]))"
proof -
  have k1: "key key_outside \<noteq> ''m''" by (simp add: key_outside_def)
  have k2: "key mark_outside = ''m'' \<and> (xdata mark_outside = None \<or> ydata mark_outside = None)"
    by (simp add: mark_outside_def)
  have p2: "Axes_plot (artists fig0) (xdata mark_outside) (ydata mark_outside) ''ro'' 5
              = Inl ValueError"
    by (simp add: Axes_plot_def mark_outside_def)
  have m2: "marked Axes_plot mark_outside fig0 = fig0"
    by (simp add: marked_def p2)
  have sh: "shape img22 = [2, 2] \<and> well_shaped img22"
    by (simp add: img22_def well_shaped_def)
  have shd: "shape img_demo = [151, 1]"
    by (simp add: img_demo_def)
  have k3: "key mark_inside = ''m'' \<and> xdata mark_inside = Some 1.2 \<and> ydata mark_inside = Some 0.4"
    by (simp add: mark_inside_def)
  have p3: "Axes_plot (artists fig0) (Some 1.2) (Some 0.4) ''ro'' 5
              = Inr [AxesImage img22, Line2D [1.2] [0.4] ''ro'' (Some 5)]"
    by (simp add: Axes_plot_def fig0_def)
  have d: "data img22 ! (nat 1 * 2 + nat 0) = 3" "data img22 ! (nat 0 * 2 + nat 1) = 2"
    by (simp_all add: img22_def)
  note a = pixel_callback_behaviour[where ev = key_outside and plot = Axes_plot
      and img = img22 and s = "(fig0, [])"]
  note b = pixel_callback_behaviour[where ev = mark_outside and plot = Axes_plot
      and img = img22 and fig = fig0 and out = "[]"]
  note c = pixel_callback_behaviour[where ev = mark_inside and plot = Axes_plot
      and img = img22 and y = "0.4" and x = "1.2" and rows = 2 and cols = 2 and i = 1 and j = 0
      and fig = fig0 and out = "[]"
      and arts = "[AxesImage img22, Line2D [1.2] [0.4] ''ro'' (Some 5)]"]
  note e = pixel_callback_behaviour[where ev = mark_inside and plot = Axes_plot
      and img = img_demo and y = "0.4" and x = "1.2" and rows = 151 and cols = 1
      and fig = fig0 and out = "[]"
      and arts = "[AxesImage img22, Line2D [1.2] [0.4] ''ro'' (Some 5)]"]
  have 1: "on_key_press_out Axes_plot img22 key_outside (fig0, []) = (None, (fig0, []))"
    using a k1 by blast
  have 2: "fst (on_key_press_pixel Axes_plot img22 mark_outside (fig0, [])) = Some ValueError"
    using b k2 p2 by simp
  have 3: "on_key_press_out Axes_plot img22 mark_outside (fig0, [])
       = (None, (fig0, [Traceback ValueError]))"
    using b k2 p2 m2 by simp
  have 4: "get_item2 img22 1 0 = Inr \<lparr>shape = [], data = [3]\<rparr>"
    using c sh d by simp
  have 5: "on_key_press_out Axes_plot img22 mark_inside (fig0, [])
       = (None, (fig0\<lparr>artists := [AxesImage img22, Line2D [1.2] [0.4] ''ro'' (Some 5)]\<rparr>,
                 [PixelLine 1.2 0.4 2]))"
    using c sh k3 p3 d trunc_vals by simp
  have 7: "on_key_press_out Axes_plot img_demo mark_inside (fig0, [])
       = (None, (fig0\<lparr>artists := [AxesImage img22, Line2D [1.2] [0.4] ''ro'' (Some 5)]\<rparr>,
                 [Traceback IndexError]))"
    using e shd k3 p3 trunc_vals by simp
  from 1 2 3 4 5 7 show ?thesis by blast
qed

lemma on_key_press_counters:
  "draw_idle_calls (snd (on_key_press plot ev fig)) = draw_idle_calls fig
   \<and> draw_calls (snd (on_key_press plot ev fig)) = draw_calls fig"
  by (simp add: on_key_press_def Let_def split: sum.splits)

lemma on_key_press_pixel_figure:
  "fst (snd (on_key_press_pixel plot img ev (fig, out))) = marked plot ev fig"
  by (simp add: on_key_press_pixel_def marked_def Let_def split: sum.splits)

lemma on_key_press_out_figure:
  "fst (snd (on_key_press_out plot img ev (fig, out))) = marked plot ev fig"
proof (cases "on_key_press_pixel plot img ev (fig, out)")
  case (fields r fig' out')
  with on_key_press_pixel_figure[of plot img ev fig out] have "fig' = marked plot ev fig"
    by simp
  with fields show ?thesis
    by (cases r) (simp_all add: on_key_press_out_def Output_capture_def)
qed

lemma GUI_inter_figure:
  "fst (snd (GUI_inter_on_key_press plot ev (fig, out))) = marked plot ev fig"
  by (simp add: GUI_inter_on_key_press_def marked_def Let_def split: sum.splits)

lemma on_key_press_figure: "snd (on_key_press plot ev fig) = marked plot ev fig"
  by (simp add: on_key_press_def marked_def Let_def split: sum.splits)

lemma marked_counters:
  "draw_idle_calls (marked plot ev fig) = draw_idle_calls fig
   \<and> draw_calls (marked plot ev fig) = draw_calls fig"
  by (simp add: marked_def split: sum.splits)

lemma marked_coords:
  "key ev = ''m'' \<Longrightarrow> xdata ev = Some x \<Longrightarrow> ydata ev = Some y \<Longrightarrow>
   marked Axes_plot ev fig = fig\<lparr>artists := artists fig @ [Line2D [x] [y] ''ro'' (Some 5)]\<rparr>"
  by (simp add: marked_def Axes_plot_coords)

lemma marked_no_coords:
  "xdata ev = None \<or> ydata ev = None \<Longrightarrow> marked Axes_plot ev fig = fig"
  by (simp add: marked_def Axes_plot_None)

lemma marked_other_key: "key ev \<noteq> ''m'' \<Longrightarrow> marked plot ev fig = fig"
  by (simp add: marked_def)

text \<open>
  Claim C10, as amended. For an \<open>m\<close> key press at data coordinates \<open>(x, y)\<close>, each
  of the key-press callbacks adds one red marker artist to the axes, the line artist
  \<open>Line2D [x] [y] 'ro'\<close> of marker size 5, and changes nothing else about the figure.
  For an \<open>m\<close> with the cursor outside the axes the plot call raises \<open>ValueError\<close>
  and the figure is left as it was, as it is for any other key. The expression
  \<open>fig.canvas.draw_idle\<close> looks the method up without calling it: whatever the event
  and whatever the plot call does, no callback asks the canvas for a redraw, and the
  figure after a callback is the figure before it with the artists that the single
  call \<open>plot(xc, yc, 'ro', markersize=5)\<close> returned. This holds of the three
  functions as written and of the decorated function that is registered.
\<close>

theorem mark_callbacks_frame:
  "draw_idle_calls (snd (on_key_press plot ev fig)) = draw_idle_calls fig
   \<and> draw_idle_calls (fst (snd (on_key_press_pixel plot img ev (fig, out)))) = draw_idle_calls fig
   \<and> draw_idle_calls (fst (snd (on_key_press_out plot img ev (fig, out)))) = draw_idle_calls fig
   \<and> draw_idle_calls (fst (snd (GUI_inter_on_key_press plot ev (fig, out)))) = draw_idle_calls fig
   \<and> draw_calls (snd (on_key_press plot ev fig)) = draw_calls fig
   \<and> draw_calls (fst (snd (on_key_press_pixel plot img ev (fig, out)))) = draw_calls fig
   \<and> draw_calls (fst (snd (on_key_press_out plot img ev (fig, out)))) = draw_calls fig
   \<and> draw_calls (fst (snd (GUI_inter_on_key_press plot ev (fig, out)))) = draw_calls fig
   \<and> snd (on_key_press plot ev fig) = marked plot ev fig
   \<and> fst (snd (on_key_press_pixel plot img ev (fig, out))) = marked plot ev fig
   \<and> fst (snd (on_key_press_out plot img ev (fig, out))) = marked plot ev fig
   \<and> fst (snd (GUI_inter_on_key_press plot ev (fig, out))) = marked plot ev fig
   \<and> (key ev = ''m'' \<and> xdata ev = Some x \<and> ydata ev = Some y \<longrightarrow>
        snd (on_key_press Axes_plot ev fig)
          = fig\<lparr>artists := artists fig @ [Line2D [x] [y] ''ro'' (Some 5)]\<rparr>
        \<and> fst (snd (on_key_press_pixel Axes_plot img ev (fig, out)))
          = fig\<lparr>artists := artists fig @ [Line2D [x] [y] ''ro'' (Some 5)]\<rparr>
        \<and> fst (snd (on_key_press_out Axes_plot img ev (fig, out)))
          = fig\<lparr>artists := artists fig @ [Line2D [x] [y] ''ro'' (Some 5)]\<rparr>
        \<and> fst (snd (GUI_inter_on_key_press Axes_plot ev (fig, out)))
          = fig\<lparr>artists := artists fig @ [Line2D [x] [y] ''ro'' (Some 5)]\<rparr>)
   \<and> (key ev \<noteq> ''m'' \<or> xdata ev = None \<or> ydata ev = None \<longrightarrow>
        snd (on_key_press Axes_plot ev fig) = fig
        \<and> fst (snd (on_key_press_pixel Axes_plot img ev (fig, out))) = fig
        \<and> fst (snd (on_key_press_out Axes_plot img ev (fig, out))) = fig
        \<and> fst (snd (GUI_inter_on_key_press Axes_plot ev (fig, out))) = fig)
   \<and> (key ev = ''m'' \<and> (xdata ev = None \<or> ydata ev = None) \<longrightarrow>
        fst (on_key_press Axes_plot ev fig) = Some ValueError
        \<and> fst (on_key_press_pixel Axes_plot img ev (fig, out)) = Some ValueError
        \<and> fst (GUI_inter_on_key_press Axes_plot ev (fig, out)) = Some ValueError)"
proof -
  note figs = on_key_press_figure on_key_press_pixel_figure on_key_press_out_figure
    GUI_inter_figure
  have c: "draw_idle_calls (snd (on_key_press plot ev fig)) = draw_idle_calls fig
   \<and> draw_idle_calls (fst (snd (on_key_press_pixel plot img ev (fig, out)))) = draw_idle_calls fig
   \<and> draw_idle_calls (fst (snd (on_key_press_out plot img ev (fig, out)))) = draw_idle_calls fig
   \<and> draw_idle_calls (fst (snd (GUI_inter_on_key_press plot ev (fig, out)))) = draw_idle_calls fig
   \<and> draw_calls (snd (on_key_press plot ev fig)) = draw_calls fig
   \<and> draw_calls (fst (snd (on_key_press_pixel plot img ev (fig, out)))) = draw_calls fig
   \<and> draw_calls (fst (snd (on_key_press_out plot img ev (fig, out)))) = draw_calls fig
   \<and> draw_calls (fst (snd (GUI_inter_on_key_press plot ev (fig, out)))) = draw_calls fig"
    by (simp only: figs marked_counters)
  have f: "snd (on_key_press plot ev fig) = marked plot ev fig
   \<and> fst (snd (on_key_press_pixel plot img ev (fig, out))) = marked plot ev fig
   \<and> fst (snd (on_key_press_out plot img ev (fig, out))) = marked plot ev fig
   \<and> fst (snd (GUI_inter_on_key_press plot ev (fig, out))) = marked plot ev fig"
    by (simp only: figs)
  have m: "snd (on_key_press Axes_plot ev fig)
          = fig\<lparr>artists := artists fig @ [Line2D [x] [y] ''ro'' (Some 5)]\<rparr>
        \<and> fst (snd (on_key_press_pixel Axes_plot img ev (fig, out)))
          = fig\<lparr>artists := artists fig @ [Line2D [x] [y] ''ro'' (Some 5)]\<rparr>
        \<and> fst (snd (on_key_press_out Axes_plot img ev (fig, out)))
          = fig\<lparr>artists := artists fig @ [Line2D [x] [y] ''ro'' (Some 5)]\<rparr>
        \<and> fst (snd (GUI_inter_on_key_press Axes_plot ev (fig, out)))
          = fig\<lparr>artists := artists fig @ [Line2D [x] [y] ''ro'' (Some 5)]\<rparr>"
    if "key ev = ''m'' \<and> xdata ev = Some x \<and> ydata ev = Some y"
    using that marked_coords[of ev x y fig] by (simp add: figs)
  have n: "snd (on_key_press Axes_plot ev fig) = fig
        \<and> fst (snd (on_key_press_pixel Axes_plot img ev (fig, out))) = fig
        \<and> fst (snd (on_key_press_out Axes_plot img ev (fig, out))) = fig
        \<and> fst (snd (GUI_inter_on_key_press Axes_plot ev (fig, out))) = fig"
    if "key ev \<noteq> ''m'' \<or> xdata ev = None \<or> ydata ev = None"
  proof -
    from that have "marked Axes_plot ev fig = fig"
      using marked_other_key[of ev Axes_plot fig] marked_no_coords[of ev fig] by blast
    then show ?thesis by (simp add: figs)
  qed
  have r: "fst (on_key_press Axes_plot ev fig) = Some ValueError
        \<and> fst (on_key_press_pixel Axes_plot img ev (fig, out)) = Some ValueError
        \<and> fst (GUI_inter_on_key_press Axes_plot ev (fig, out)) = Some ValueError"
    if "key ev = ''m'' \<and> (xdata ev = None \<or> ydata ev = None)"
  proof -
    from that have "Axes_plot (artists fig) (xdata ev) (ydata ev) ''ro'' 5 = Inl ValueError"
      using Axes_plot_None[of "xdata ev" "ydata ev"] by blast
    with that show ?thesis
      by (simp add: on_key_press_def on_key_press_pixel_def GUI_inter_on_key_press_def)
  qed
  from c f m n r show ?thesis by blast
qed

text \<open>
  The claim as stated says that the \<open>m\<close> callbacks add a marker. For an \<open>m\<close> with
  the cursor outside the axes each of them raises in the plot call, or shows that
  exception in the widget, and the axes hold the image only, as before.
\<close>

theorem mark_callbacks_counterexample:
  "key mark_outside = ''m''
   \<and> on_key_press Axes_plot mark_outside fig0 = (Some ValueError, fig0)
   \<and> on_key_press_pixel Axes_plot img22 mark_outside (fig0, []) = (Some ValueError, (fig0, []))
   \<and> on_key_press_out Axes_plot img22 mark_outside (fig0, [])
       = (None, (fig0, [Traceback ValueError]))
   \<and> GUI_inter_on_key_press Axes_plot mark_outside (fig0, []) = (Some ValueError, (fig0, []))
   \<and> artists fig0 = [AxesImage img22]"
  by (simp add: on_key_press_def on_key_press_pixel_def on_key_press_out_def
      Output_capture_def GUI_inter_on_key_press_def mark_outside_def Axes_plot_def fig0_def)

theorem mark_callbacks_frame_witness:
  "snd (on_key_press Axes_plot mark_inside fig0)
     = fig0\<lparr>artists := artists fig0 @ [Line2D [1.2] [0.4] ''ro'' (Some 5)]\<rparr>
   \<and> fst (snd (on_key_press_out Axes_plot img22 mark_inside (fig0, [])))
     = fig0\<lparr>artists := artists fig0 @ [Line2D [1.2] [0.4] ''ro'' (Some 5)]\<rparr>
   \<and> fst (snd (GUI_inter_on_key_press Axes_plot mark_inside (fig0, [])))
     = fig0\<lparr>artists := artists fig0 @ [Line2D [1.2] [0.4] ''ro'' (Some 5)]\<rparr>
   \<and> draw_idle_calls (snd (on_key_press Axes_plot mark_inside fig0)) = 0
   \<and> snd (on_key_press Axes_plot mark_outside fig0) = fig0
   \<and> fst (on_key_press Axes_plot mark_outside fig0) = Some ValueError
   \<and> fst (snd (on_key_press_out Axes_plot img22 key_outside (fig0, []))) = fig0"
proof -
  have k: "key mark_inside = ''m'' \<and> xdata mark_inside = Some 1.2 \<and> ydata mark_inside = Some 0.4"
    by (simp add: mark_inside_def)
  have k2: "key mark_outside = ''m'' \<and> (xdata mark_outside = None \<or> ydata mark_outside = None)"
    by (simp add: mark_outside_def)
  have k3: "key key_outside \<noteq> ''m''"
    by (simp add: key_outside_def)
  have z: "draw_idle_calls fig0 = 0" by (simp add: fig0_def)
  note t = mark_callbacks_frame[where plot = Axes_plot and ev = mark_inside and fig = fig0
      and img = img22 and out = "[]" and x = "1.2" and y = "0.4"]
  note u = mark_callbacks_frame[where plot = Axes_plot and ev = mark_outside and fig = fig0
      and img = img22 and out = "[]"]
  note v = mark_callbacks_frame[where plot = Axes_plot and ev = key_outside and fig = fig0
      and img = img22 and out = "[]"]
  from t k have a: "snd (on_key_press Axes_plot mark_inside fig0)
     = fig0\<lparr>artists := artists fig0 @ [Line2D [1.2] [0.4] ''ro'' (Some 5)]\<rparr>
   \<and> fst (snd (on_key_press_out Axes_plot img22 mark_inside (fig0, [])))
     = fig0\<lparr>artists := artists fig0 @ [Line2D [1.2] [0.4] ''ro'' (Some 5)]\<rparr>
   \<and> fst (snd (GUI_inter_on_key_press Axes_plot mark_inside (fig0, [])))
     = fig0\<lparr>artists := artists fig0 @ [Line2D [1.2] [0.4] ''ro'' (Some 5)]\<rparr>"
    by blast
  from t have "draw_idle_calls (snd (on_key_press Axes_plot mark_inside fig0))
                 = draw_idle_calls fig0"
    by blast
  with z have b: "draw_idle_calls (snd (on_key_press Axes_plot mark_inside fig0)) = 0"
    by (simp only:)
  from u k2 have c: "snd (on_key_press Axes_plot mark_outside fig0) = fig0
      \<and> fst (on_key_press Axes_plot mark_outside fig0) = Some ValueError"
    by blast
  from v k3 have d: "fst (snd (on_key_press_out Axes_plot img22 key_outside (fig0, []))) = fig0"
    by blast
  from a b c d show ?thesis by blast
qed

lemma length_model_star: "model_star xs popt = Inr ys \<Longrightarrow> length ys = length xs"
  by (auto simp: model_star_def model_vec_def split: list.splits)

lemma py_getitem_in_set: "py_getitem xs i = Inr x \<Longrightarrow> x \<in> set xs"
  by (auto simp: py_getitem_def bind_res_Inr norm_index_def split: if_splits)

lemma read_spectrum_lengths: "read_spectrum pf = Inr (wav, spec) \<Longrightarrow> length wav = length spec"
  by (auto simp: read_spectrum_def bind_res_Inr table_getitem_def split: if_splits)

lemma show_image_2d:
  "ndim img = 2 \<Longrightarrow>
   show_image img = Inr \<lparr>artists = [AxesImage img], draw_idle_calls = 0, draw_calls = 0\<rparr>"
proof -
  assume "ndim img = 2"
  then obtain m n where sh: "shape img = [m, n]"
    by (auto simp: ndim_def length_Suc_conv eval_nat_numeral)
  then have "squeeze_last img = img" by (simp add: squeeze_last_def)
  with sh show ?thesis
    by (simp add: show_image_def Axes_imshow_def bind_res_def)
qed

lemma GUI_inter_display_2d:
  "ndim img = 2 \<Longrightarrow>
   GUI_inter_display img = Inr \<lparr>artists = [AxesImage img], draw_idle_calls = 1, draw_calls = 0\<rparr>"
proof -
  assume "ndim img = 2"
  then obtain m n where sh: "shape img = [m, n]"
    by (auto simp: ndim_def length_Suc_conv eval_nat_numeral)
  then have "squeeze_last img = img" by (simp add: squeeze_last_def)
  with sh show ?thesis
    by (simp add: GUI_inter_display_def Axes_imshow_def bind_res_def canvas_draw_idle_def)
qed

lemma load_image_2d:
  assumes "returns_2d_images get_images" and "load_image get_images = Inr img"
  shows "ndim img = 2"
proof -
  from assms(2) obtain pflist pf h where g: "get_images ''M82'' [''SDSSr''] 10 = Inr pflist"
    and pf: "py_getitem pflist 0 = Inr pf" and h: "py_getitem pf 0 = Inr h"
    and d: "hdu_data h = Inr img"
    by (auto simp: load_image_def bind_res_Inr)
  from assms(1) g have "list_all (list_all (\<lambda>h. case hdu_data h of Inl e \<Rightarrow> True
      | Inr a \<Rightarrow> ndim a = 2)) pflist"
    unfolding returns_2d_images_def by blast
  with py_getitem_in_set[OF pf] py_getitem_in_set[OF h]
  have "case hdu_data h of Inl e \<Rightarrow> True | Inr a \<Rightarrow> ndim a = 2"
    by (auto simp: list_all_iff)
  with d show ?thesis by simp
qed

lemma new_spec_mpl_eq:
  "new_spec mpl_line sp new f =
     (case bind_res (py_getitem sp new) read_spectrum of
        Inl e \<Rightarrow> (Some e, f)
      | Inr (wav, spec) \<Rightarrow>
          (None, f\<lparr>line_xdata := wav, line_ydata := spec,
                   canvas_draws := Suc (canvas_draws f)\<rparr>))"
  by (simp add: new_spec_def mpl_line_def step_def split: sum.splits prod.splits)

lemma new_spec_mpl:
  assumes "fst (new_spec mpl_line sp new f) = None"
  shows "length (line_xdata (snd (new_spec mpl_line sp new f)))
     = length (line_ydata (snd (new_spec mpl_line sp new f)))"
proof (cases "bind_res (py_getitem sp new) read_spectrum")
  case (Inl e)
  with assms show ?thesis by (simp add: new_spec_mpl_eq)
next
  case (Inr r)
  obtain wav spec where r: "r = (wav, spec)" by (cases r)
  with Inr obtain pf where "read_spectrum pf = Inr (wav, spec)"
    by (auto simp: bind_res_Inr)
  then have "length wav = length spec" by (rule read_spectrum_lengths)
  with Inr r show ?thesis by (simp add: new_spec_mpl_eq)
qed

text \<open>
  Claim C8. Every plotting call that pairs an x array with a y array passes two arrays
  of equal length: \<open>wave\<close>, \<open>flux\<close>, \<open>obs_flux\<close> and the fitted model over \<open>wave\<close>
  all have length 100, the grid of \<open>np.linspace\<close>; the wavelength and flux arrays of a
  spectrum come from the same table and have equal length, in the spectrum cell and
  in the line that \<open>new_spec\<close> redraws. The array passed to \<open>imshow\<close> is
  2-dimensional: a 2-D image is handed to \<open>imshow\<close> as it is and accepted, by the
  display cells and by \<open>GUI_inter\<close> alike, the image
  loaded from the sky service, which delivers 2-D pixel arrays, is such an image, and
  so is every image on which the slider cell runs.
\<close>

theorem plotted_arrays_match:
  "length wave = 100 \<and> length flux = 100
   \<and> (\<exists>ks g'. obs_flux draw g = Inr (ks, g') \<and> length ks = 100)
   \<and> (model_star wave popt = Inr ys \<longrightarrow> length ys = 100)
   \<and> (read_spectrum pf = Inr (wav, spec) \<longrightarrow> length wav = length spec)
   \<and> (spectrum_cell sp = Inr (wav, spec) \<longrightarrow> length wav = length spec)
   \<and> (fst (new_spec mpl_line sp new f) = None \<longrightarrow>
        length (line_xdata (snd (new_spec mpl_line sp new f)))
          = length (line_ydata (snd (new_spec mpl_line sp new f))))
   \<and> (ndim img = 2 \<longrightarrow>
        show_image img = Inr \<lparr>artists = [AxesImage img], draw_idle_calls = 0, draw_calls = 0\<rparr>
        \<and> (\<exists>fig. GUI_inter_display img = Inr fig \<and> artists fig = [AxesImage img]))
   \<and> (returns_2d_images get_images \<longrightarrow> load_image get_images = Inr img \<longrightarrow>
        ndim img = 2
        \<and> show_image img = Inr \<lparr>artists = [AxesImage img], draw_idle_calls = 0, draw_calls = 0\<rparr>)
   \<and> (image_slider_cell img = Inr cell \<longrightarrow> ndim img = 2)"
proof -
  have o: "\<exists>ks g'. obs_flux draw g = Inr (ks, g') \<and> length ks = 100"
  proof -
    obtain ks g' where p: "poisson_draws draw g flux = (ks, g')"
      by (cases "poisson_draws draw g flux")
    from length_poisson_draws[of draw g flux] p have "length ks = 100"
      by (simp add: length_flux)
    moreover from p have "obs_flux draw g = Inr (ks, g')"
      by (simp add: obs_flux_def random_poisson_def flux_no_negative)
    ultimately show ?thesis by blast
  qed
  have m: "length ys = 100" if "model_star wave popt = Inr ys"
    using length_model_star[OF that] by (simp add: length_wave)
  have c: "length wav = length spec" if "spectrum_cell sp = Inr (wav, spec)"
    using that by (auto simp: spectrum_cell_def bind_res_Inr dest: read_spectrum_lengths)
  have l: "ndim img = 2
        \<and> show_image img = Inr \<lparr>artists = [AxesImage img], draw_idle_calls = 0, draw_calls = 0\<rparr>"
    if "returns_2d_images get_images" and "load_image get_images = Inr img"
    using load_image_2d[OF that] show_image_2d by blast
  have u: "ndim img = 2" if "image_slider_cell img = Inr cell"
    using that by (auto simp: image_slider_cell_def bind_res_Inr unpack2_Inr ndim_def)
  have d: "show_image img
            = Inr \<lparr>artists = [AxesImage img], draw_idle_calls = 0, draw_calls = 0\<rparr>
        \<and> (\<exists>fig. GUI_inter_display img = Inr fig \<and> artists fig = [AxesImage img])"
    if "ndim img = 2"
    using show_image_2d[OF that] GUI_inter_display_2d[OF that] by simp
  from o m c d l u length_wave length_flux read_spectrum_lengths[of pf wav spec]
    new_spec_mpl[of sp new f]
  show ?thesis by blast
qed

lemma get_images_demo_2d: "returns_2d_images get_images_demo"
  by (simp add: returns_2d_images_def get_images_demo_def img22_def ndim_def)

lemma load_image_demo: "load_image get_images_demo = Inr img22"
  by (simp add: load_image_def get_images_demo_def bind_res_def py_getitem_def norm_index_def)

lemma new_spec_demo:
  "new_spec mpl_line sp_demo 0 \<lparr>line_xdata = [], line_ydata = [], canvas_draws = 0\<rparr>
     = (None, \<lparr>line_xdata = [1000], line_ydata = [1], canvas_draws = 1\<rparr>)"
proof -
  have "py_getitem sp_demo 0 = Inr (sp_demo ! 0)"
    by (simp add: py_getitem_def norm_index_def bind_res_def sp_demo_def)
  then show ?thesis
    by (simp add: new_spec_mpl_eq bind_res_def read_spectrum_demo)
qed

theorem plotted_arrays_match_witness:
  "model_star wave p0 = Inr (model_vec wave 425 0 80 4.5 1)
   \<and> length (model_vec wave 425 0 80 4.5 1) = 100
   \<and> read_spectrum (sp_demo ! 0) = Inr ([1000], [1])
   \<and> length [1000::real] = length [1::real]
   \<and> spectrum_cell sp_demo = Inr ([1000], [1])
   \<and> new_spec mpl_line sp_demo 0 \<lparr>line_xdata = [], line_ydata = [], canvas_draws = 0\<rparr>
       = (None, \<lparr>line_xdata = [1000], line_ydata = [1], canvas_draws = 1\<rparr>)
   \<and> returns_2d_images get_images_demo
   \<and> load_image get_images_demo = Inr img22
   \<and> ndim img22 = 2
   \<and> show_image img22 = Inr \<lparr>artists = [AxesImage img22], draw_idle_calls = 0, draw_calls = 0\<rparr>
   \<and> image_slider_cell img_demo =
       Inr (\<lparr>line_xdata = [0], line_ydata = [0], canvas_draws = 0\<rparr>,
            \<lparr>slider_value = 150, slider_min = 0, slider_max = 151, slider_step = 1\<rparr>)
   \<and> ndim img_demo = 2"
proof -
  have a: "model_star wave p0 = Inr (model_vec wave 425 0 80 4.5 1)"
    by (simp add: model_star_def p0_def)
  have s: "spectrum_cell sp_demo = Inr ([1000], [1])"
  proof -
    have "py_getitem sp_demo 0 = Inr (sp_demo ! 0)"
      by (simp add: py_getitem_def norm_index_def bind_res_def sp_demo_def)
    then show ?thesis by (simp add: spectrum_cell_def bind_res_def read_spectrum_demo)
  qed
  have n: "fst (new_spec mpl_line sp_demo 0
      \<lparr>line_xdata = [], line_ydata = [], canvas_draws = 0\<rparr>) = None"
    by (simp add: new_spec_demo)
  note t = plotted_arrays_match[where popt = p0 and ys = "model_vec wave 425 0 80 4.5 1"
      and pf = "sp_demo ! 0" and wav = "[1000]" and spec = "[1]" and sp = sp_demo and new = 0
      and f = "\<lparr>line_xdata = [], line_ydata = [], canvas_draws = 0\<rparr>"
      and img = img22 and get_images = get_images_demo
      and draw = "\<lambda>g l. (nat \<lfloor>l\<rfloor>, Suc g)" and g = "0::nat"]
  note t' = plotted_arrays_match[where img = img_demo
      and cell = "(\<lparr>line_xdata = [0], line_ydata = [0], canvas_draws = 0\<rparr>,
            \<lparr>slider_value = 150, slider_min = 0, slider_max = 151, slider_step = 1\<rparr>)"
      and draw = "\<lambda>g l. (nat \<lfloor>l\<rfloor>, Suc g)" and g = "0::nat"]
  from t a have 1: "length (model_vec wave 425 0 80 4.5 1) = 100" by blast
  from t read_spectrum_demo have 2: "length [1000::real] = length [1::real]" by blast
  from t get_images_demo_2d load_image_demo have 3: "ndim img22 = 2
      \<and> show_image img22 = Inr \<lparr>artists = [AxesImage img22], draw_idle_calls = 0, draw_calls = 0\<rparr>"
    by blast
  from t' image_slider_cell_demo have 4: "ndim img_demo = 2" by blast
  from a 1 2 3 4 s read_spectrum_demo new_spec_demo get_images_demo_2d load_image_demo
    image_slider_cell_demo
  show ?thesis by blast
qed







end
